theory Spec2Isabelle
  imports Main
begin

section \<open>Python values, exceptions and library functions\<close>

text \<open>
  The values that travel through \<^verbatim>\<open>youtube_api_manager.py\<close> are decoded JSON documents
  and the dictionaries built from them. A float is kept as mantissa and exponent; only
  its truth value is ever inspected. A Python dict is an association list, looked up
  with \<open>map_of\<close>; \<open>JNull\<close> is Python's \<^verbatim>\<open>None\<close>.
\<close>

datatype json =
    JNull
  | JBool bool
  | JInt int
  | JFloat int int
  | JStr string
  | JArr "json list"
  | JObj "(string \<times> json) list"

type_synonym pydict = "(string \<times> json) list"

text \<open>
  Exceptions. \<open>HttpError\<close> carries the bytes of the response body (\<^verbatim>\<open>e.content\<close>);
  \<open>TransportError\<close> stands for the failures of the HTTP layer that are not an
  \<^verbatim>\<open>HttpError\<close> (time-out, unreachable server); \<open>OSError\<close> for those of the file system;
  \<open>LibraryError\<close> for an exception class of a third-party library, by its name.
\<close>

datatype exn =
    HttpError string
  | ValueError string
  | JSONDecodeError
  | KeyError
  | IndexError
  | TypeError
  | AttributeError
  | TransportError string
  | OSError string
  | LibraryError string

text \<open>A naive \<^verbatim>\<open>datetime\<close> is its seven fields; an aware one adds an offset in minutes.\<close>

record naive =
  dt_year :: int
  dt_month :: int
  dt_day :: int
  dt_hour :: int
  dt_minute :: int
  dt_second :: int
  dt_microsecond :: int

datatype datetime = Naive naive | Aware naive int

text \<open>
  The functions of the Python standard library that the code calls and that are not
  part of the repository are parameters of the model:
  \<^item> \<open>json_loads\<close> is \<^verbatim>\<open>json.loads(b.decode('utf-8'))\<close>, \<open>None\<close> when either step raises;
  \<^item> \<open>strptime\<close> is \<^verbatim>\<open>datetime.strptime(s, '%Y-%m-%dT%H:%M:%SZ')\<close>, \<open>None\<close> when it raises
    \<^verbatim>\<open>ValueError\<close>; the format has no \<^verbatim>\<open>%z\<close>, so the result is naive;
  \<^item> \<open>str_of\<close> is \<^verbatim>\<open>str\<close> on a value that is not a string.
\<close>

record pylib =
  json_loads :: "string \<Rightarrow> json option"
  strptime :: "string \<Rightarrow> naive option"
  str_of :: "json \<Rightarrow> string"

fun truthy :: "json \<Rightarrow> bool" where
  "truthy JNull = False"
| "truthy (JBool b) = b"
| "truthy (JInt i) = (i \<noteq> 0)"
| "truthy (JFloat m e) = (m \<noteq> 0)"
| "truthy (JStr s) = (s \<noteq> [])"
| "truthy (JArr xs) = (xs \<noteq> [])"
| "truthy (JObj kvs) = (kvs \<noteq> [])"

text \<open>An optional string argument (\<^verbatim>\<open>channel_id: str = None\<close>) is falsy when absent or empty.\<close>

fun opt_truthy :: "string option \<Rightarrow> bool" where
  "opt_truthy None = False"
| "opt_truthy (Some s) = (s \<noteq> [])"

definition bindE :: "exn + 'a \<Rightarrow> ('a \<Rightarrow> exn + 'b) \<Rightarrow> exn + 'b" where
  "bindE r f = (case r of Inl e \<Rightarrow> Inl e | Inr v \<Rightarrow> f v)"

text \<open>\<^verbatim>\<open>x[k]\<close> with a string key.\<close>

fun subscr :: "json \<Rightarrow> string \<Rightarrow> exn + json" where
  "subscr (JObj kvs) k = (case map_of kvs k of None \<Rightarrow> Inl KeyError | Some v \<Rightarrow> Inr v)"
| "subscr _ k = Inl TypeError"

text \<open>\<^verbatim>\<open>x[0]\<close>.\<close>

fun subscr0 :: "json \<Rightarrow> exn + json" where
  "subscr0 (JArr []) = Inl IndexError"
| "subscr0 (JArr (v # vs)) = Inr v"
| "subscr0 (JStr []) = Inl IndexError"
| "subscr0 (JStr (c # cs)) = Inr (JStr [c])"
| "subscr0 (JObj kvs) = Inl KeyError"
| "subscr0 _ = Inl TypeError"

text \<open>\<^verbatim>\<open>x.get(k, d)\<close>; \<^verbatim>\<open>x.get(k)\<close> is \<open>get_method x k JNull\<close>.\<close>

fun get_method :: "json \<Rightarrow> string \<Rightarrow> json \<Rightarrow> exn + json" where
  "get_method (JObj kvs) k d = (case map_of kvs k of None \<Rightarrow> Inr d | Some v \<Rightarrow> Inr v)"
| "get_method _ k d = Inl AttributeError"

text \<open>\<^verbatim>\<open>x[k1][k2]\<close> and \<^verbatim>\<open>x[k1].get(k2, d)\<close>.\<close>

definition subscr2 :: "json \<Rightarrow> string \<Rightarrow> string \<Rightarrow> exn + json" where
  "subscr2 x k1 k2 = bindE (subscr x k1) (\<lambda>y. subscr y k2)"

definition subscr_get :: "json \<Rightarrow> string \<Rightarrow> string \<Rightarrow> json \<Rightarrow> exn + json" where
  "subscr_get x k1 k2 d = bindE (subscr x k1) (\<lambda>y. get_method y k2 d)"

text \<open>The elements a \<^verbatim>\<open>for\<close> loop visits.\<close>

fun py_iter :: "json \<Rightarrow> exn + json list" where
  "py_iter (JArr xs) = Inr xs"
| "py_iter (JStr s) = Inr (map (\<lambda>c. JStr [c]) s)"
| "py_iter (JObj kvs) = Inr (map (\<lambda>kv. JStr (fst kv)) kvs)"
| "py_iter _ = Inl TypeError"

text \<open>A dict display: the values are evaluated left to right, the first raise wins.\<close>

fun dict_literal :: "(string \<times> (exn + json)) list \<Rightarrow> exn + pydict" where
  "dict_literal [] = Inr []"
| "dict_literal ((k, Inl e) # rest) = Inl e"
| "dict_literal ((k, Inr v) # rest) =
     (case dict_literal rest of Inl e \<Rightarrow> Inl e | Inr d \<Rightarrow> Inr ((k, v) # d))"

text \<open>A replacement field \<^verbatim>\<open>{v}\<close> of an f-string.\<close>

definition format_value :: "pylib \<Rightarrow> json \<Rightarrow> string" where
  "format_value lib v = (case v of JStr s \<Rightarrow> s | _ \<Rightarrow> str_of lib v)"

text \<open>Comparison of naive datetimes is lexicographic on the fields.\<close>

fun lex_less :: "int list \<Rightarrow> int list \<Rightarrow> bool" where
  "lex_less (a # as) (b # bs) = (a < b \<or> (a = b \<and> lex_less as bs))"
| "lex_less _ _ = False"

definition naive_fields :: "naive \<Rightarrow> int list" where
  "naive_fields t = [dt_year t, dt_month t, dt_day t, dt_hour t, dt_minute t,
     dt_second t, dt_microsecond t]"

definition naive_lt :: "naive \<Rightarrow> naive \<Rightarrow> bool" where
  "naive_lt a b = lex_less (naive_fields a) (naive_fields b)"

text \<open>
  \<^verbatim>\<open>published_at < published_after\<close>, the left operand naive: comparing it with an aware
  datetime raises \<^verbatim>\<open>TypeError\<close>.
\<close>

fun published_before :: "naive \<Rightarrow> datetime \<Rightarrow> exn + bool" where
  "published_before t (Naive p) = Inr (naive_lt t p)"
| "published_before t (Aware p off) = Inl TypeError"

section \<open>The remote client\<close>

text \<open>
  The three requests the code builds, with their keyword arguments in the order
  \<^verbatim>\<open>channels().list(part, id, forUsername)\<close>,
  \<^verbatim>\<open>playlistItems().list(part, playlistId, maxResults, pageToken)\<close> and
  \<^verbatim>\<open>videos().list(part, id)\<close>. Building one sends nothing; \<^verbatim>\<open>execute()\<close> sends it.
  The remote service answers a request given the requests sent before it, so the log of
  requests is the whole state of the outside world, and its length is the number of
  network calls.
\<close>

datatype request =
    ChannelsList string "string option" "string option"
  | PlaylistItemsList string json int json
  | VideosList string string

type_synonym transport = "request list \<Rightarrow> request \<Rightarrow> exn + json"

definition execute :: "transport \<Rightarrow> request list \<Rightarrow> request \<Rightarrow> (exn + json) \<times> request list" where
  "execute tr log req = (tr log req, log @ [req])"

text \<open>
  The handler of \<^verbatim>\<open>except HttpError as e\<close>: the message of the decoded error body.
\<close>

definition api_error :: "pylib \<Rightarrow> string \<Rightarrow> exn + pydict" where
  "api_error lib content =
     (case json_loads lib content of
        None \<Rightarrow> Inl JSONDecodeError
      | Some error_details \<Rightarrow>
          bindE (subscr2 error_details ''error'' ''message'')
            (\<lambda>m. Inr [(''error'', JStr (''API Error: '' @ format_value lib m))]))"

text \<open>\<^verbatim>\<open>try: ... except HttpError as e: handler\<close>; any other exception passes through.\<close>

fun catch_http :: "exn + 'a \<Rightarrow> (string \<Rightarrow> exn + 'a) \<Rightarrow> exn + 'a" where
  "catch_http (Inl (HttpError content)) h = h content"
| "catch_http r h = r"

section \<open>get_channel_info\<close>

definition channel_record :: "json \<Rightarrow> exn + pydict" where
  "channel_record channel_data = dict_literal
     [(''id'', subscr channel_data ''id''),
      (''title'', subscr2 channel_data ''snippet'' ''title''),
      (''description'', subscr2 channel_data ''snippet'' ''description''),
      (''customUrl'', subscr_get channel_data ''snippet'' ''customUrl'' (JStr '''')),
      (''publishedAt'', subscr2 channel_data ''snippet'' ''publishedAt''),
      (''thumbnails'', subscr2 channel_data ''snippet'' ''thumbnails''),
      (''country'', subscr_get channel_data ''snippet'' ''country'' (JStr '''')),
      (''viewCount'', subscr_get channel_data ''statistics'' ''viewCount'' (JInt 0)),
      (''subscriberCount'', subscr_get channel_data ''statistics'' ''subscriberCount'' (JInt 0)),
      (''hiddenSubscriberCount'',
         subscr_get channel_data ''statistics'' ''hiddenSubscriberCount'' (JBool False)),
      (''videoCount'', subscr_get channel_data ''statistics'' ''videoCount'' (JInt 0)),
      (''uploads_playlist'',
         bindE (subscr2 channel_data ''contentDetails'' ''relatedPlaylists'')
           (\<lambda>r. subscr r ''uploads''))]"

text \<open>What the body of the \<^verbatim>\<open>try\<close> does with the answer of \<^verbatim>\<open>request.execute()\<close>.\<close>

definition channel_of_response :: "exn + json \<Rightarrow> exn + pydict" where
  "channel_of_response r =
     bindE r (\<lambda>response.
       bindE (get_method response ''items'' JNull) (\<lambda>items.
         if \<not> truthy items then Inr [(''error'', JStr ''Channel not found'')]
         else bindE (bindE (subscr response ''items'') subscr0) channel_record))"

definition channels_part :: string where
  "channels_part = ''snippet,contentDetails,statistics''"

text \<open>The request is by id when \<^verbatim>\<open>channel_id\<close> is truthy, by username otherwise.\<close>

definition channel_request :: "string option \<Rightarrow> string option \<Rightarrow> request" where
  "channel_request channel_id username =
     (if opt_truthy channel_id
      then ChannelsList channels_part channel_id None
      else ChannelsList channels_part None username)"

definition get_channel_info ::
  "pylib \<Rightarrow> transport \<Rightarrow> request list \<Rightarrow> string option \<Rightarrow> string option
     \<Rightarrow> (exn + pydict) \<times> request list" where
  "get_channel_info lib tr log channel_id username =
     (if \<not> opt_truthy channel_id \<and> \<not> opt_truthy username
      then (Inl (ValueError ''Either channel_id or username must be provided''), log)
      else
        let request = channel_request channel_id username;
            (response, log') = execute tr log request
        in (catch_http (channel_of_response response) (api_error lib), log'))"

section \<open>get_video_details\<close>

definition watch_url :: "pylib \<Rightarrow> json \<Rightarrow> json" where
  "watch_url lib v = JStr (''https://www.youtube.com/watch?v='' @ format_value lib v)"

definition video_record :: "pylib \<Rightarrow> json \<Rightarrow> exn + pydict" where
  "video_record lib video_data = dict_literal
     [(''id'', subscr video_data ''id''),
      (''title'', subscr2 video_data ''snippet'' ''title''),
      (''description'', subscr2 video_data ''snippet'' ''description''),
      (''publishedAt'', subscr2 video_data ''snippet'' ''publishedAt''),
      (''thumbnails'', subscr2 video_data ''snippet'' ''thumbnails''),
      (''channelId'', subscr2 video_data ''snippet'' ''channelId''),
      (''channelTitle'', subscr2 video_data ''snippet'' ''channelTitle''),
      (''tags'', subscr_get video_data ''snippet'' ''tags'' (JArr [])),
      (''categoryId'', subscr_get video_data ''snippet'' ''categoryId'' (JStr '''')),
      (''duration'', subscr2 video_data ''contentDetails'' ''duration''),
      (''viewCount'', subscr_get video_data ''statistics'' ''viewCount'' (JInt 0)),
      (''likeCount'', subscr_get video_data ''statistics'' ''likeCount'' (JInt 0)),
      (''commentCount'', subscr_get video_data ''statistics'' ''commentCount'' (JInt 0)),
      (''url'', bindE (subscr video_data ''id'') (\<lambda>v. Inr (watch_url lib v)))]"

definition video_of_response :: "pylib \<Rightarrow> exn + json \<Rightarrow> exn + pydict" where
  "video_of_response lib r =
     bindE r (\<lambda>response.
       bindE (get_method response ''items'' JNull) (\<lambda>items.
         if \<not> truthy items then Inr [(''error'', JStr ''Video not found'')]
         else bindE (bindE (subscr response ''items'') subscr0) (video_record lib)))"

definition video_request :: "string \<Rightarrow> request" where
  "video_request video_id = VideosList channels_part video_id"

definition get_video_details ::
  "pylib \<Rightarrow> transport \<Rightarrow> request list \<Rightarrow> string \<Rightarrow> (exn + pydict) \<times> request list" where
  "get_video_details lib tr log video_id =
     (let request = video_request video_id;
          (response, log') = execute tr log request
      in (catch_http (video_of_response lib response) (api_error lib), log'))"

section \<open>get_all_videos\<close>

text \<open>
  \<^verbatim>\<open>if published_after: ... if published_at < published_after: continue\<close>:
  \<open>Inr True\<close> when the item is skipped. A \<^verbatim>\<open>datetime\<close> is always truthy.
\<close>

definition skip_item :: "pylib \<Rightarrow> datetime option \<Rightarrow> json \<Rightarrow> exn + bool" where
  "skip_item lib published_after item =
     (case published_after of
        None \<Rightarrow> Inr False
      | Some pa \<Rightarrow>
          bindE (subscr2 item ''snippet'' ''publishedAt'') (\<lambda>s.
            case s of
              JStr str \<Rightarrow>
                (case strptime lib str of
                   None \<Rightarrow> Inl (ValueError ''time data does not match format'')
                 | Some published_at \<Rightarrow> published_before published_at pa)
            | _ \<Rightarrow> Inl TypeError))"

definition video_data :: "pylib \<Rightarrow> json \<Rightarrow> exn + pydict" where
  "video_data lib item = dict_literal
     [(''id'', subscr2 item ''contentDetails'' ''videoId''),
      (''title'', subscr2 item ''snippet'' ''title''),
      (''description'', subscr2 item ''snippet'' ''description''),
      (''publishedAt'', subscr2 item ''snippet'' ''publishedAt''),
      (''thumbnails'', subscr2 item ''snippet'' ''thumbnails''),
      (''channelId'', subscr2 item ''snippet'' ''channelId''),
      (''channelTitle'', subscr2 item ''snippet'' ''channelTitle''),
      (''url'', bindE (subscr2 item ''contentDetails'' ''videoId'') (\<lambda>v. Inr (watch_url lib v)))]"

text \<open>The \<^verbatim>\<open>for item in response['items']\<close> loop, appending to \<^verbatim>\<open>videos\<close>.\<close>

fun process_items :: "pylib \<Rightarrow> datetime option \<Rightarrow> json list \<Rightarrow> pydict list \<Rightarrow> exn + pydict list" where
  "process_items lib published_after [] videos = Inr videos"
| "process_items lib published_after (item # rest) videos =
     (case skip_item lib published_after item of
        Inl e \<Rightarrow> Inl e
      | Inr True \<Rightarrow> process_items lib published_after rest videos
      | Inr False \<Rightarrow>
          (case video_data lib item of
             Inl e \<Rightarrow> Inl e
           | Inr v \<Rightarrow> process_items lib published_after rest (videos @ [v])))"

text \<open>\<^verbatim>\<open>max_results and len(videos) >= max_results\<close>; \<^verbatim>\<open>max_results\<close> is an int or \<^verbatim>\<open>None\<close>.\<close>

fun cap_reached :: "int option \<Rightarrow> pydict list \<Rightarrow> bool" where
  "cap_reached None videos = False"
| "cap_reached (Some n) videos = (n \<noteq> 0 \<and> int (length videos) \<ge> n)"

text \<open>\<^verbatim>\<open>min(50, max_results - len(videos) if max_results else 50)\<close>.\<close>

fun page_size :: "int option \<Rightarrow> pydict list \<Rightarrow> int" where
  "page_size None videos = min 50 50"
| "page_size (Some n) videos = min 50 (if n \<noteq> 0 then n - int (length videos) else 50)"

definition playlist_part :: string where
  "playlist_part = ''snippet,contentDetails''"

text \<open>
  One pass through the body of \<^verbatim>\<open>while True\<close>: either the loop is left (by \<^verbatim>\<open>break\<close> with
  the list, or by an exception) or it goes round again with a new list and cursor.
\<close>

datatype iteration =
    Stop "exn + pydict list" "request list"
  | Again "pydict list" json "request list"

definition loop_body ::
  "pylib \<Rightarrow> transport \<Rightarrow> json \<Rightarrow> int option \<Rightarrow> datetime option
     \<Rightarrow> pydict list \<Rightarrow> json \<Rightarrow> request list \<Rightarrow> iteration" where
  "loop_body lib tr uploads_playlist_id max_results published_after videos next_page_token log =
     (if cap_reached max_results videos then Stop (Inr videos) log
      else
        let request = PlaylistItemsList playlist_part uploads_playlist_id
                        (page_size max_results videos) next_page_token;
            (r, log') = execute tr log request
        in case r of
             Inl e \<Rightarrow> Stop (Inl e) log'
           | Inr response \<Rightarrow>
               (case bindE (bindE (subscr response ''items'') py_iter)
                       (\<lambda>items. process_items lib published_after items videos) of
                  Inl e \<Rightarrow> Stop (Inl e) log'
                | Inr videos' \<Rightarrow>
                    (case get_method response ''nextPageToken'' JNull of
                       Inl e \<Rightarrow> Stop (Inl e) log'
                     | Inr token \<Rightarrow>
                         if \<not> truthy token then Stop (Inr videos') log'
                         else Again videos' token log')))"

partial_function (option) fetch_loop ::
  "pylib \<Rightarrow> transport \<Rightarrow> json \<Rightarrow> int option \<Rightarrow> datetime option
     \<Rightarrow> pydict list \<Rightarrow> json \<Rightarrow> request list \<Rightarrow> ((exn + pydict list) \<times> request list) option" where
  "fetch_loop lib tr pl max_results published_after videos next_page_token log =
     (case loop_body lib tr pl max_results published_after videos next_page_token log of
        Stop r log' \<Rightarrow> Some (r, log')
      | Again videos' token log' \<Rightarrow>
          fetch_loop lib tr pl max_results published_after videos' token log')"

declare fetch_loop.simps [code]

text \<open>\<^verbatim>\<open>d[k]\<close> on a dict the code built itself.\<close>

definition dict_subscr :: "pydict \<Rightarrow> string \<Rightarrow> exn + json" where
  "dict_subscr d k = (case map_of d k of None \<Rightarrow> Inl KeyError | Some v \<Rightarrow> Inr v)"

definition has_key :: "pydict \<Rightarrow> string \<Rightarrow> bool" where
  "has_key d k = (map_of d k \<noteq> None)"

text \<open>The handler of \<^verbatim>\<open>get_all_videos\<close> wraps the error record in a list.\<close>

definition api_error_list :: "pylib \<Rightarrow> string \<Rightarrow> exn + pydict list" where
  "api_error_list lib content = bindE (api_error lib content) (\<lambda>d. Inr [d])"

text \<open>
  The first step of the \<^verbatim>\<open>try\<close>: the channel is looked up by username only when no
  channel id is given. In that branch the code also rebinds \<^verbatim>\<open>channel_id\<close> to
  \<^verbatim>\<open>channel_info["id"]\<close>, a key every success record has, and never reads it again.
\<close>

definition resolve_channel ::
  "pylib \<Rightarrow> transport \<Rightarrow> request list \<Rightarrow> string option \<Rightarrow> string option
     \<Rightarrow> (exn + pydict) \<times> request list" where
  "resolve_channel lib tr log channel_id username =
     (if opt_truthy username \<and> \<not> opt_truthy channel_id
      then get_channel_info lib tr log None username
      else get_channel_info lib tr log channel_id None)"

text \<open>The body of the \<^verbatim>\<open>try\<close>.\<close>

definition videos_body ::
  "pylib \<Rightarrow> transport \<Rightarrow> request list \<Rightarrow> string option \<Rightarrow> string option \<Rightarrow> int option
     \<Rightarrow> datetime option \<Rightarrow> ((exn + pydict list) \<times> request list) option" where
  "videos_body lib tr log channel_id username max_results published_after =
     (let (ci, log1) = resolve_channel lib tr log channel_id username
      in case ci of
           Inl e \<Rightarrow> Some (Inl e, log1)
         | Inr channel_info \<Rightarrow>
             if has_key channel_info ''error''
             then Some (bindE (dict_subscr channel_info ''error'') (\<lambda>v. Inr [[(''error'', v)]]), log1)
             else (case dict_subscr channel_info ''uploads_playlist'' of
                     Inl e \<Rightarrow> Some (Inl e, log1)
                   | Inr uploads_playlist_id \<Rightarrow>
                       fetch_loop lib tr uploads_playlist_id max_results published_after
                         [] JNull log1))"

text \<open>
  \<^verbatim>\<open>get_all_videos\<close>. Every argument is explicit here: the defaults of the signature are
  \<^verbatim>\<open>max_results = Some 50\<close> and \<^verbatim>\<open>published_after = None\<close>. The result is \<open>None\<close> when the loop
  does not end.
\<close>

definition get_all_videos ::
  "pylib \<Rightarrow> transport \<Rightarrow> request list \<Rightarrow> string option \<Rightarrow> string option \<Rightarrow> int option
     \<Rightarrow> datetime option \<Rightarrow> ((exn + pydict list) \<times> request list) option" where
  "get_all_videos lib tr log channel_id username max_results published_after =
     (if \<not> opt_truthy channel_id \<and> \<not> opt_truthy username
      then Some (Inl (ValueError ''Either channel_id or username must be provided''), log)
      else map_option (\<lambda>(r, log'). (catch_http r (api_error_list lib), log'))
             (videos_body lib tr log channel_id username max_results published_after))"

section \<open>Properties of records and of the environment\<close>

text \<open>The record the loop builds for an item, when building it raises nothing.\<close>

definition record_of :: "pylib \<Rightarrow> json \<Rightarrow> pydict" where
  "record_of lib item = (case video_data lib item of Inl e \<Rightarrow> [] | Inr d \<Rightarrow> d)"

definition well_formed_item :: "pylib \<Rightarrow> json \<Rightarrow> bool" where
  "well_formed_item lib item = (\<not> isl (video_data lib item))"

text \<open>An item passes the filter: it is looked at, and not skipped.\<close>

definition kept :: "pylib \<Rightarrow> datetime option \<Rightarrow> json \<Rightarrow> bool" where
  "kept lib published_after item = (skip_item lib published_after item = Inr False)"

text \<open>The url of a record is the watch address of its id.\<close>

definition url_of_id :: "pylib \<Rightarrow> pydict \<Rightarrow> bool" where
  "url_of_id lib d =
     (case map_of d ''id'' of
        None \<Rightarrow> False
      | Some v \<Rightarrow>
          map_of d ''url'' = Some (JStr (''https://www.youtube.com/watch?v='' @ format_value lib v)))"

text \<open>The publish timestamp of a record parses and is not before the instant.\<close>

definition not_before :: "pylib \<Rightarrow> datetime \<Rightarrow> pydict \<Rightarrow> bool" where
  "not_before lib pa d =
     (case map_of d ''publishedAt'' of
        Some (JStr s) \<Rightarrow>
          (case strptime lib s of
             None \<Rightarrow> False
           | Some t \<Rightarrow> published_before t pa = Inr False)
      | _ \<Rightarrow> False)"

text \<open>The last request of a log, and what the remote answered to it.\<close>

definition last_answer :: "transport \<Rightarrow> request list \<Rightarrow> (request \<times> (exn + json)) option" where
  "last_answer tr log =
     (case rev log of
        [] \<Rightarrow> None
      | req # before \<Rightarrow> Some (req, tr (rev before) req))"

text \<open>The last request of a log was answered with a page that has no continuation cursor.\<close>

definition no_cursor_at_end :: "transport \<Rightarrow> request list \<Rightarrow> bool" where
  "no_cursor_at_end tr log =
     (case last_answer tr log of
        Some (req, Inr response) \<Rightarrow>
          (case get_method response ''nextPageToken'' JNull of
             Inl e \<Rightarrow> False
           | Inr token \<Rightarrow> \<not> truthy token)
      | _ \<Rightarrow> False)"

text \<open>
  The outcomes of a lookup request that the code turns into an error record: an answer
  with no item (absent, null or empty \<^verbatim>\<open>items\<close>), and an \<^verbatim>\<open>HttpError\<close>; the error is
  structured when its body decodes to JSON with a message under \<^verbatim>\<open>error\<close>.
\<close>

definition not_found :: "exn + json \<Rightarrow> bool" where
  "not_found r =
     (case r of
        Inl e \<Rightarrow> False
      | Inr response \<Rightarrow>
          (case get_method response ''items'' JNull of
             Inl e \<Rightarrow> False
           | Inr items \<Rightarrow> \<not> truthy items))"

definition is_http_error :: "exn + 'a \<Rightarrow> bool" where
  "is_http_error r = (case r of Inl (HttpError content) \<Rightarrow> True | _ \<Rightarrow> False)"

definition structured_body :: "pylib \<Rightarrow> string \<Rightarrow> bool" where
  "structured_body lib content =
     (case json_loads lib content of
        None \<Rightarrow> False
      | Some body \<Rightarrow>
          (case subscr2 body ''error'' ''message'' of Inl e \<Rightarrow> False | Inr m \<Rightarrow> True))"

definition structured_error :: "pylib \<Rightarrow> exn + json \<Rightarrow> bool" where
  "structured_error lib r =
     (case r of Inl (HttpError content) \<Rightarrow> structured_body lib content | _ \<Rightarrow> False)"

text \<open>An error record: the single key \<^verbatim>\<open>error\<close>, with a non-empty message.\<close>

definition tagged_error :: "pydict \<Rightarrow> bool" where
  "tagged_error d =
     (length d = 1 \<and>
      (case map_of d ''error'' of
         Some (JStr message) \<Rightarrow> message \<noteq> []
       | _ \<Rightarrow> False))"


text \<open>
  A provider that pages the uploads collection \<open>items\<close> of the playlist \<open>pl\<close>: asked for
  \<open>m\<close> items, \<open>m\<close> from 1 to 50, at the cursor of position \<open>k\<close> it answers with the next \<open>m\<close>
  items, and with the cursor of position \<open>k + m\<close> exactly when items remain after them.
  Nothing is asked of its answer to a larger page size, which the service clamps and the
  code never sends. The cursors are opaque to the client: \<open>c 0\<close> is the absent cursor of the
  first request, every other one is truthy.
\<close>

definition serves_pages :: "transport \<Rightarrow> json \<Rightarrow> json list \<Rightarrow> (nat \<Rightarrow> json) \<Rightarrow> bool" where
  "serves_pages tr pl items c =
     (c 0 = JNull \<and> (\<forall>k. 0 < k \<longrightarrow> truthy (c k)) \<and>
      (\<forall>log k m. 0 < m \<and> m \<le> 50 \<longrightarrow>
         (\<exists>response.
            tr log (PlaylistItemsList playlist_part pl m (c k)) = Inr response \<and>
            subscr response ''items'' = Inr (JArr (take (nat m) (drop k items))) \<and>
            get_method response ''nextPageToken'' JNull =
              Inr (if k + nat m < length items then c (k + nat m) else JNull))))"

text \<open>
  The channel lookup of \<^verbatim>\<open>get_all_videos\<close> succeeds: it returns a channel record, whose
  uploads playlist is \<open>pl\<close>, and leaves the log \<open>log1\<close>.
\<close>

definition resolves_to ::
  "pylib \<Rightarrow> transport \<Rightarrow> request list \<Rightarrow> string option \<Rightarrow> string option
     \<Rightarrow> json \<Rightarrow> request list \<Rightarrow> bool" where
  "resolves_to lib tr log channel_id username pl log1 =
     (case resolve_channel lib tr log channel_id username of
        (Inl e, l) \<Rightarrow> False
      | (Inr info, l) \<Rightarrow>
          l = log1 \<and> \<not> has_key info ''error'' \<and>
          dict_subscr info ''uploads_playlist'' = Inr pl)"

text \<open>
  The request of the channel lookup of \<^verbatim>\<open>get_all_videos\<close>: by username only when no
  channel id is given.
\<close>

definition resolve_request :: "string option \<Rightarrow> string option \<Rightarrow> request" where
  "resolve_request channel_id username =
     (if opt_truthy username \<and> \<not> opt_truthy channel_id
      then channel_request None username
      else channel_request channel_id None)"

text \<open>
  The list, the cursor and the log at the head of the loop after \<open>n\<close> whole passes, when
  the loop makes that many.
\<close>

fun loop_state ::
  "pylib \<Rightarrow> transport \<Rightarrow> json \<Rightarrow> int option \<Rightarrow> datetime option \<Rightarrow> nat
     \<Rightarrow> pydict list \<Rightarrow> json \<Rightarrow> request list \<Rightarrow> (pydict list \<times> json \<times> request list) option" where
  "loop_state lib tr pl mr pa 0 videos token log = Some (videos, token, log)"
| "loop_state lib tr pl mr pa (Suc n) videos token log =
     (case loop_body lib tr pl mr pa videos token log of
        Stop r log' \<Rightarrow> None
      | Again videos' token' log' \<Rightarrow> loop_state lib tr pl mr pa n videos' token' log')"

text \<open>
  A provider that never ends the listing of \<open>pl\<close>: every page it sends can be processed
  and carries a cursor.
\<close>

definition always_continues :: "pylib \<Rightarrow> transport \<Rightarrow> json \<Rightarrow> datetime option \<Rightarrow> bool" where
  "always_continues lib tr pl published_after =
     (\<forall>log m token. \<exists>response iv its next.
        tr log (PlaylistItemsList playlist_part pl m token) = Inr response \<and>
        subscr response ''items'' = Inr iv \<and> py_iter iv = Inr its \<and>
        (\<forall>videos. \<exists>videos'. process_items lib published_after its videos = Inr videos') \<and>
        get_method response ''nextPageToken'' JNull = Inr next \<and> truthy next)"

text \<open>What a capped or uncapped listing of the collection \<open>items\<close> returns.\<close>

fun capped :: "int option \<Rightarrow> 'a list \<Rightarrow> 'a list" where
  "capped None xs = xs"
| "capped (Some n) xs = (if n \<noteq> 0 then take (nat n) xs else xs)"

section \<open>The transcript helper\<close>

text \<open>
  \<^verbatim>\<open>YoutubeTranscriptor.transcript\<close> of \<^verbatim>\<open>test_yt_transcription.py\<close>. The caption is a text, a
  list of code points; a file holds bytes. The file system is the set of directories and
  the files by path, the paths taken as written: no \<^verbatim>\<open>..\<close> and no link is resolved, which
  is what the operating system does for the two paths the helper builds from a video
  id that has no \<^verbatim>\<open>/\<close> in it.
\<close>

type_synonym codepoints = "nat list"

type_synonym bytes = "nat list"

record filesystem =
  dirs :: "string set"
  files :: "string \<Rightarrow> bytes option"

text \<open>
  What the helper takes from outside the repository:
  \<^item> \<open>fetch\<close> is
    \<^verbatim>\<open>YouTubeTranscriptApi().fetch(video_id, languages=languages, preserve_formatting=True)\<close>,
    giving the texts of the snippets or raising;
  \<^item> \<open>default_encode\<close> is the encoding that \<^verbatim>\<open>open(path, "w")\<close> uses when, as here, the call
    names none: the one of the locale;
  \<^item> \<open>mkdir_error\<close>, \<open>open_error\<close> and \<open>write_error\<close> are what the operating system refuses
    for reasons this file system does not hold: a name that is too long, missing
    permissions, a read-only or a full file system. \<open>mkdir_error p\<close> and \<open>open_error p\<close> are
    the error of creating the directory and of opening the file \<open>p\<close> for writing, if any,
    and nothing is changed then; \<open>write_error p b\<close> is the error of writing the bytes \<open>b\<close> to
    the open file, if any, with the bytes that reached the file.
\<close>

record transcript_env =
  fetch :: "string \<Rightarrow> string list \<Rightarrow> exn + codepoints list"
  default_encode :: "codepoints \<Rightarrow> exn + bytes"
  mkdir_error :: "string \<Rightarrow> exn option"
  open_error :: "string \<Rightarrow> exn option"
  write_error :: "string \<Rightarrow> bytes \<Rightarrow> (exn \<times> bytes) option"

text \<open>\<^verbatim>\<open>" ".join(texts)\<close>.\<close>

fun join_space :: "codepoints list \<Rightarrow> codepoints" where
  "join_space [] = []"
| "join_space [t] = t"
| "join_space (t # ts) = t @ [32] @ join_space ts"

text \<open>The part of a path before its last \<^verbatim>\<open>/\<close>.\<close>

definition dirname :: "string \<Rightarrow> string" where
  "dirname p = rev (tl (dropWhile (\<lambda>c. c \<noteq> CHR ''/'') (rev p)))"

definition isdir :: "filesystem \<Rightarrow> string \<Rightarrow> bool" where
  "isdir fs p = (p \<in> dirs fs)"

text \<open>
  \<^verbatim>\<open>os.mkdir(p)\<close>: the path must be free, its parent a directory, and the operating system
  willing.
\<close>

definition mkdir :: "transcript_env \<Rightarrow> filesystem \<Rightarrow> string \<Rightarrow> exn + filesystem" where
  "mkdir env fs p =
     (if p \<in> dirs fs \<or> files fs p \<noteq> None then Inl (OSError ''FileExistsError'')
      else if dirname p \<notin> dirs fs then Inl (OSError ''FileNotFoundError'')
      else case mkdir_error env p of
             Some e \<Rightarrow> Inl e
           | None \<Rightarrow> Inr (fs\<lparr>dirs := insert p (dirs fs)\<rparr>))"

text \<open>
  \<^verbatim>\<open>with open(p, "w") as f: f.write(s)\<close>: a file that opens is created or emptied; the text
  is then encoded, and a text that does not encode leaves the file empty; a write that
  fails leaves what reached the file.
\<close>

definition write_text ::
  "transcript_env \<Rightarrow> filesystem \<Rightarrow> string \<Rightarrow> codepoints \<Rightarrow> (exn + unit) \<times> filesystem" where
  "write_text env fs p s =
     (if CHR 0x00 \<in> set p then (Inl (ValueError ''embedded null byte''), fs)
      else if p \<in> dirs fs then (Inl (OSError ''IsADirectoryError''), fs)
      else if dirname p \<notin> dirs fs then (Inl (OSError ''FileNotFoundError''), fs)
      else case open_error env p of
             Some e \<Rightarrow> (Inl e, fs)
           | None \<Rightarrow>
               (case default_encode env s of
                  Inl e \<Rightarrow> (Inl e, fs\<lparr>files := (files fs)(p \<mapsto> [])\<rparr>)
                | Inr b \<Rightarrow>
                    (case write_error env p b of
                       Some (e, reached) \<Rightarrow> (Inl e, fs\<lparr>files := (files fs)(p \<mapsto> reached)\<rparr>)
                     | None \<Rightarrow> (Inr (), fs\<lparr>files := (files fs)(p \<mapsto> b)\<rparr>))))"

definition transcript_path :: "string \<Rightarrow> string" where
  "transcript_path video_id = ''./transcriptions/'' @ video_id @ ''.txt''"

definition transcript ::
  "transcript_env \<Rightarrow> filesystem \<Rightarrow> string \<Rightarrow> string list \<Rightarrow> (exn + unit) \<times> filesystem" where
  "transcript env fs video_id languages =
     (case fetch env video_id languages of
        Inl e \<Rightarrow> (Inl e, fs)
      | Inr fetched_transcript \<Rightarrow>
          let caption = join_space fetched_transcript
          in case (if isdir fs ''./transcriptions'' = False
                   then mkdir env fs ''./transcriptions'' else Inr fs) of
               Inl e \<Rightarrow> (Inl e, fs)
             | Inr fs1 \<Rightarrow> write_text env fs1 (transcript_path video_id) caption)"

text \<open>UTF-8, the encoding the specification names, and Latin-1, another locale's.\<close>

definition utf8_char :: "nat \<Rightarrow> bytes" where
  "utf8_char cp =
     (if cp < 128 then [cp]
      else if cp < 2048 then [192 + cp div 64, 128 + cp mod 64]
      else if cp < 65536 then [224 + cp div 4096, 128 + cp div 64 mod 64, 128 + cp mod 64]
      else [240 + cp div 262144, 128 + cp div 4096 mod 64, 128 + cp div 64 mod 64,
            128 + cp mod 64])"

definition utf8_encode :: "codepoints \<Rightarrow> exn + bytes" where
  "utf8_encode s = Inr (concat (map utf8_char s))"

definition latin1_encode :: "codepoints \<Rightarrow> exn + bytes" where
  "latin1_encode s =
     (if list_all (\<lambda>cp. cp < 256) s then Inr s else Inl (ValueError ''UnicodeEncodeError''))"

section \<open>Stub environments\<close>

text \<open>
  A stub of the library, enough for the examples: one error body decodes, a few
  timestamps parse, and no value other than a string is ever formatted.
\<close>

definition error_body :: string where
  \<open>error_body = ''{"error": {"code": 403, "message": "quotaExceeded"}}''\<close>

definition stamp :: "int \<Rightarrow> int \<Rightarrow> int \<Rightarrow> naive" where
  "stamp y m d = \<lparr>dt_year = y, dt_month = m, dt_day = d, dt_hour = 0, dt_minute = 0,
     dt_second = 0, dt_microsecond = 0\<rparr>"

definition stub_lib :: pylib where
  "stub_lib = \<lparr>
     json_loads = (\<lambda>s. if s = error_body
        then Some (JObj [(''error'',
               JObj [(''code'', JInt 403), (''message'', JStr ''quotaExceeded'')])])
        else None),
     strptime = map_of
       [(''2023-12-31T00:00:00Z'', stamp 2023 12 31),
        (''2024-01-01T00:00:00Z'', stamp 2024 1 1),
        (''2024-06-01T00:00:00Z'', stamp 2024 6 1)],
     str_of = (\<lambda>v. ''None'')\<rparr>"

text \<open>A channel resource and a playlist item as the remote service sends them.\<close>

definition stub_channel :: json where
  "stub_channel = JObj
     [(''id'', JStr ''UC1''),
      (''snippet'', JObj
         [(''title'', JStr ''Channel''), (''description'', JStr []),
          (''publishedAt'', JStr ''2023-12-31T00:00:00Z''), (''thumbnails'', JObj [])]),
      (''statistics'', JObj [(''viewCount'', JStr ''7''), (''videoCount'', JStr ''3'')]),
      (''contentDetails'', JObj [(''relatedPlaylists'', JObj [(''uploads'', JStr ''UU1'')])])]"

definition stub_item :: "string \<Rightarrow> string \<Rightarrow> json" where
  "stub_item video_id published_at = JObj
     [(''snippet'', JObj
         [(''title'', JStr ''Video''), (''description'', JStr []),
          (''publishedAt'', JStr published_at), (''thumbnails'', JObj []),
          (''channelId'', JStr ''UC1''), (''channelTitle'', JStr ''Channel'')]),
      (''contentDetails'', JObj [(''videoId'', JStr video_id)])]"

definition stub_video :: "string \<Rightarrow> json" where
  "stub_video video_id = JObj
     [(''id'', JStr video_id),
      (''snippet'', JObj
         [(''title'', JStr ''Video''), (''description'', JStr []),
          (''publishedAt'', JStr ''2024-01-01T00:00:00Z''), (''thumbnails'', JObj []),
          (''channelId'', JStr ''UC1''), (''channelTitle'', JStr ''Channel'')]),
      (''contentDetails'', JObj [(''duration'', JStr ''PT1M'')]),
      (''statistics'', JObj [(''viewCount'', JStr ''10'')])]"

text \<open>Seventy-five uploads, and three with different dates.\<close>

definition uploads75 :: "json list" where
  "uploads75 = map (\<lambda>k. stub_item (replicate (Suc k) CHR ''v'') ''2024-01-01T00:00:00Z'') [0..<75]"

definition uploads3 :: "json list" where
  "uploads3 =
     [stub_item ''a'' ''2024-06-01T00:00:00Z'',
      stub_item ''b'' ''2023-12-31T00:00:00Z'',
      stub_item ''c'' ''2024-01-01T00:00:00Z'']"

text \<open>
  A stub provider for one channel, which sends at most 50 items a page whatever is asked.
  The cursor of position \<open>k\<close> is a string of \<open>k\<close> letters; the absent cursor is position 0.
\<close>

definition cursor_of :: "nat \<Rightarrow> json" where
  "cursor_of k = (if k = 0 then JNull else JStr (replicate k CHR ''x''))"

fun position_of :: "json \<Rightarrow> nat" where
  "position_of (JStr s) = length s"
| "position_of _ = 0"

definition page_of :: "json list \<Rightarrow> nat \<Rightarrow> nat \<Rightarrow> json" where
  "page_of items k m = JObj
     ((''items'', JArr (take m (drop k items))) #
      (if k + m < length items then [(''nextPageToken'', cursor_of (k + m))] else []))"

fun stub_provider :: "json list \<Rightarrow> transport" where
  "stub_provider items log (ChannelsList part channel_id username) =
     Inr (JObj [(''items'', JArr [stub_channel])])"
| "stub_provider items log (PlaylistItemsList part pl m token) =
     Inr (page_of items (position_of token) (nat (min m 50)))"
| "stub_provider items log (VideosList part video_id) =
     Inr (JObj [(''items'', JArr (if video_id = [] then [] else [stub_video video_id]))])"

text \<open>A provider whose pages are empty and always carry a cursor.\<close>

fun endless_provider :: transport where
  "endless_provider log (PlaylistItemsList part pl m token) =
     Inr (JObj [(''items'', JArr []), (''nextPageToken'', JStr ''x'')])"
| "endless_provider log req = stub_provider [] log req"

text \<open>A transport that fails with \<open>e\<close> once \<open>n\<close> requests have been sent.\<close>

definition failing_after :: "nat \<Rightarrow> exn \<Rightarrow> transport \<Rightarrow> transport" where
  "failing_after n e tr log req = (if n \<le> length log then Inl e else tr log req)"

text \<open>Stubs for the transcript helper.\<close>

definition stub_fs :: filesystem where
  "stub_fs = \<lparr>dirs = {''.''}, files = Map.empty\<rparr>"

definition stub_env :: "(codepoints \<Rightarrow> exn + bytes) \<Rightarrow> transcript_env" where
  "stub_env encode = \<lparr>
     fetch = (\<lambda>video_id languages.
        if languages = [] then Inl (LibraryError ''NoTranscriptFound'')
        else Inr [[233], [111, 107]]),
     default_encode = encode,
     mkdir_error = (\<lambda>p. None),
     open_error = (\<lambda>p. if 255 < length p - length (dirname p) - 1
        then Some (OSError ''File name too long'') else None),
     write_error = (\<lambda>p b. None)\<rparr>"

section \<open>Lemmas\<close>

subsection \<open>Dict displays\<close>

lemma dict_literal_Inr:
  "dict_literal kvs = Inr d \<Longrightarrow>
     d = map (\<lambda>kr. (fst kr, case snd kr of Inr v \<Rightarrow> v | Inl e \<Rightarrow> JNull)) kvs \<and>
     list_all (\<lambda>kr. \<not> isl (snd kr)) kvs"
proof (induction kvs arbitrary: d)
  case Nil
  then show ?case by simp
next
  case (Cons a kvs)
  obtain k r where a: "a = (k, r)" by (cases a)
  show ?case
  proof (cases r)
    case (Inl e)
    with Cons.prems a show ?thesis by simp
  next
    case (Inr v)
    with Cons.prems a obtain d' where d': "dict_literal kvs = Inr d'" "d = (k, v) # d'"
      by (auto split: sum.splits)
    from Cons.IH[OF d'(1)] d'(2) a Inr show ?thesis by simp
  qed
qed

lemma video_data_url:
  "video_data lib item = Inr d \<Longrightarrow> url_of_id lib d"
  unfolding video_data_def url_of_id_def
  by (drule dict_literal_Inr) (auto simp: bindE_def isl_def watch_url_def split: sum.splits)

lemma video_record_url:
  "video_record lib item = Inr d \<Longrightarrow> url_of_id lib d"
  unfolding video_record_def url_of_id_def
  by (drule dict_literal_Inr) (auto simp: bindE_def isl_def watch_url_def split: sum.splits)

lemma video_record_no_error:
  "video_record lib item = Inr d \<Longrightarrow> \<not> has_key d ''error''"
  unfolding video_record_def has_key_def
  by (drule dict_literal_Inr) simp

lemma channel_record_no_error:
  "channel_record item = Inr d \<Longrightarrow> \<not> has_key d ''error''"
  unfolding channel_record_def has_key_def
  by (drule dict_literal_Inr) simp

lemma video_data_no_error:
  "video_data lib item = Inr d \<Longrightarrow> \<not> has_key d ''error''"
  unfolding video_data_def has_key_def
  by (drule dict_literal_Inr) simp

lemma video_data_published_at:
  "video_data lib item = Inr d \<Longrightarrow>
     subscr2 item ''snippet'' ''publishedAt'' = Inr v \<Longrightarrow> map_of d ''publishedAt'' = Some v"
  unfolding video_data_def
  by (drule dict_literal_Inr) simp

subsection \<open>The items of one page\<close>

lemma process_items_Inr:
  "process_items lib pa its videos = Inr videos' \<Longrightarrow>
     videos' = videos @ map (record_of lib) (filter (kept lib pa) its) \<and>
     (\<forall>it \<in> set its. kept lib pa it \<longrightarrow> well_formed_item lib it)"
proof (induction its arbitrary: videos)
  case Nil
  then show ?case by simp
next
  case (Cons it its)
  show ?case
  proof (cases "skip_item lib pa it")
    case (Inl e)
    with Cons.prems show ?thesis by simp
  next
    case (Inr b)
    show ?thesis
    proof (cases b)
      case True
      with Inr Cons.prems have "process_items lib pa its videos = Inr videos'" by simp
      from Cons.IH[OF this] Inr True show ?thesis by (simp add: kept_def)
    next
      case False
      with Inr Cons.prems obtain v where v: "video_data lib it = Inr v"
        and r: "process_items lib pa its (videos @ [v]) = Inr videos'"
        by (auto split: sum.splits)
      from Cons.IH[OF r] Inr False v show ?thesis
        by (simp add: kept_def record_of_def well_formed_item_def)
    qed
  qed
qed

lemma process_items_total:
  "\<forall>it \<in> set its. well_formed_item lib it \<Longrightarrow>
     process_items lib None its videos = Inr (videos @ map (record_of lib) its)"
proof (induction its arbitrary: videos)
  case Nil
  then show ?case by simp
next
  case (Cons it its)
  from Cons.prems obtain v where v: "video_data lib it = Inr v"
    by (cases "video_data lib it") (auto simp: well_formed_item_def)
  have s: "skip_item lib None it = Inr False" by (simp add: skip_item_def)
  from Cons.prems have "\<forall>it \<in> set its. well_formed_item lib it" by simp
  from Cons.IH[OF this, of "videos @ [v]"] v s show ?case
    by (simp add: record_of_def)
qed

subsection \<open>One pass of the loop\<close>

lemma loop_body_Again:
  assumes "loop_body lib tr pl mr pa v t l = Again v' t' l'"
  shows "\<not> cap_reached mr v \<and> l' = l @ [PlaylistItemsList playlist_part pl (page_size mr v) t] \<and>
     (\<exists>response iv its.
        tr l (PlaylistItemsList playlist_part pl (page_size mr v) t) = Inr response \<and>
        subscr response ''items'' = Inr iv \<and> py_iter iv = Inr its \<and>
        process_items lib pa its v = Inr v' \<and>
        get_method response ''nextPageToken'' JNull = Inr t' \<and> truthy t')"
  using assms
  by (auto simp: loop_body_def execute_def Let_def bindE_def split: if_splits sum.splits)

lemma loop_body_Stop_Inr:
  assumes "loop_body lib tr pl mr pa v t l = Stop (Inr vids) l'"
  shows "(cap_reached mr v \<and> vids = v \<and> l' = l) \<or>
     (\<not> cap_reached mr v \<and> l' = l @ [PlaylistItemsList playlist_part pl (page_size mr v) t] \<and>
      (\<exists>response iv its t'.
         tr l (PlaylistItemsList playlist_part pl (page_size mr v) t) = Inr response \<and>
         subscr response ''items'' = Inr iv \<and> py_iter iv = Inr its \<and>
         process_items lib pa its v = Inr vids \<and>
         get_method response ''nextPageToken'' JNull = Inr t' \<and> \<not> truthy t'))"
  using assms
  by (auto simp: loop_body_def execute_def Let_def bindE_def split: if_splits sum.splits)

lemma loop_body_Stop_Inl:
  assumes "loop_body lib tr pl mr pa v t l = Stop (Inl e) l'"
  shows "\<not> cap_reached mr v \<and> l' = l @ [PlaylistItemsList playlist_part pl (page_size mr v) t]"
  using assms
  by (auto simp: loop_body_def execute_def Let_def bindE_def split: if_splits sum.splits)

lemma loop_body_raise:
  assumes "\<not> cap_reached mr v"
    and "tr l (PlaylistItemsList playlist_part pl (page_size mr v) t) = Inl e"
  shows "loop_body lib tr pl mr pa v t l =
     Stop (Inl e) (l @ [PlaylistItemsList playlist_part pl (page_size mr v) t])"
  using assms by (simp add: loop_body_def execute_def)

subsection \<open>The loop\<close>

lemma fetch_loop_invariant:
  assumes "fetch_loop lib tr pl mr pa videos tok log = Some res"
    and "I videos tok log"
    and "\<And>v t l v' t' l'. I v t l \<Longrightarrow> loop_body lib tr pl mr pa v t l = Again v' t' l' \<Longrightarrow> I v' t' l'"
  shows "\<exists>v t l. I v t l \<and> loop_body lib tr pl mr pa v t l = Stop (fst res) (snd res)"
  using assms
proof (induction lib tr pl mr pa videos tok log res
         rule: fetch_loop.raw_induct[rotated 1, consumes 1])
  case (1 fetch_loop lib tr pl mr pa videos tok log res)
  show ?case
  proof (cases "loop_body lib tr pl mr pa videos tok log")
    case (Stop r l')
    with "1.hyps" have "res = (r, l')" by simp
    with Stop "1.prems"(1) show ?thesis by auto
  next
    case (Again v' t' l')
    with "1.hyps" have f: "fetch_loop lib tr pl mr pa v' t' l' = Some res" by simp
    have i: "I v' t' l'" using "1.prems" Again by blast
    show ?thesis by (rule "1.IH"[OF f i "1.prems"(2)])
  qed
qed

lemma page_size_le: "page_size mr videos \<le> 50"
  by (cases mr) auto

lemma loop_body_page:
  assumes sp: "serves_pages tr pl items c"
    and wf: "\<forall>it \<in> set items. well_formed_item lib it"
    and nc: "\<not> cap_reached mr videos"
    and ps: "0 < page_size mr videos"
    and v: "videos = map (record_of lib) (take k items)"
    and k: "k \<le> length items"
  shows "loop_body lib tr pl mr None videos (c k) log =
     (let m = nat (page_size mr videos);
          log' = log @ [PlaylistItemsList playlist_part pl (page_size mr videos) (c k)]
      in if k + m < length items
         then Again (map (record_of lib) (take (k + m) items)) (c (k + m)) log'
         else Stop (Inr (map (record_of lib) items)) log')"
proof -
  let ?m = "page_size mr videos"
  from sp ps page_size_le[of mr videos] obtain response where
    r: "tr log (PlaylistItemsList playlist_part pl ?m (c k)) = Inr response"
    and i: "subscr response ''items'' = Inr (JArr (take (nat ?m) (drop k items)))"
    and t: "get_method response ''nextPageToken'' JNull =
              Inr (if k + nat ?m < length items then c (k + nat ?m) else JNull)"
    unfolding serves_pages_def by blast
  from sp have tk: "\<And>j. 0 < j \<Longrightarrow> truthy (c j)" unfolding serves_pages_def by blast
  from wf have "\<forall>it \<in> set (take (nat ?m) (drop k items)). well_formed_item lib it"
    by (meson in_set_dropD in_set_takeD)
  from process_items_total[OF this, of videos]
  have p: "process_items lib None (take (nat ?m) (drop k items)) videos =
       Inr (map (record_of lib) (take (k + nat ?m) items))"
    using v by (simp add: take_add)
  have all: "\<not> k + nat ?m < length items \<Longrightarrow> take (k + nat ?m) items = items" by simp
  from ps have pos: "0 < k + nat ?m" by simp
  show ?thesis
    using nc r i t p all tk[OF pos]
    by (simp add: loop_body_def execute_def bindE_def Let_def)
qed

lemma page_size_pos: "\<not> cap_reached mr videos \<Longrightarrow> 0 < page_size mr videos"
  by (cases mr) auto

lemma fetch_loop_paged:
  assumes sp: "serves_pages tr pl items c"
    and wf: "\<forall>it \<in> set items. well_formed_item lib it"
  shows "k \<le> length items \<Longrightarrow> (\<forall>n. mr = Some n \<and> n \<noteq> 0 \<longrightarrow> k \<le> nat n) \<Longrightarrow>
     \<exists>log'. fetch_loop lib tr pl mr None (map (record_of lib) (take k items)) (c k) log =
        Some (Inr (map (record_of lib) (capped mr items)), log')"
proof (induction "length items - k" arbitrary: k log rule: less_induct)
  case less
  let ?videos = "map (record_of lib) (take k items)"
  have len: "length ?videos = k" using less.prems(1) by simp
  show ?case
  proof (cases "cap_reached mr ?videos")
    case True
    then obtain n where n: "mr = Some n" "n \<noteq> 0" "n \<le> int k"
      using len by (cases mr) auto
    with less.prems(2) have "k \<le> nat n" by simp
    with n have "k = nat n" by linarith
    then have "take k items = take (nat n) items" by simp
    with n True show ?thesis
      by (subst fetch_loop.simps) (simp add: loop_body_def)
  next
    case False
    let ?m = "nat (page_size mr ?videos)"
    have ps: "0 < page_size mr ?videos" by (rule page_size_pos[OF False])
    note body = loop_body_page[OF sp wf False ps refl less.prems(1), of log]
    have bound: "\<forall>n. mr = Some n \<and> n \<noteq> 0 \<longrightarrow> k + ?m \<le> nat n"
    proof (intro allI impI)
      fix n assume a: "mr = Some n \<and> n \<noteq> 0"
      with False len have "int k < n" by simp
      moreover from a len have "page_size mr ?videos \<le> n - int k" by simp
      ultimately show "k + ?m \<le> nat n" by linarith
    qed
    show ?thesis
    proof (cases "k + ?m < length items")
      case True
      have "length items - (k + ?m) < length items - k" using True ps by linarith
      from less.hyps[OF this _ bound, of "log @ [PlaylistItemsList playlist_part pl (page_size mr ?videos) (c k)]"] True
      obtain log' where "fetch_loop lib tr pl mr None (map (record_of lib) (take (k + ?m) items)) (c (k + ?m))
          (log @ [PlaylistItemsList playlist_part pl (page_size mr ?videos) (c k)]) =
          Some (Inr (map (record_of lib) (capped mr items)), log')" by auto
      with body True show ?thesis
        by (subst fetch_loop.simps) (simp add: Let_def)
    next
      case nomore: False
      have "capped mr items = items"
      proof (cases mr)
        case None then show ?thesis by simp
      next
        case (Some n)
        with bound nomore show ?thesis by (cases "n = 0") auto
      qed
      with body nomore show ?thesis
        by (subst fetch_loop.simps) (simp add: Let_def)
    qed
  qed
qed

subsection \<open>Outcomes of the two lookups\<close>

lemma api_error_structured:
  assumes "structured_body lib content"
  shows "\<exists>m. api_error lib content = Inr [(''error'', JStr (''API Error: '' @ m))]"
proof -
  from assms obtain body v where "json_loads lib content = Some body"
    and "subscr2 body ''error'' ''message'' = Inr v"
    by (auto simp: structured_body_def split: option.splits sum.splits)
  then have "api_error lib content = Inr [(''error'', JStr (''API Error: '' @ format_value lib v))]"
    by (simp add: api_error_def bindE_def)
  then show ?thesis by blast
qed

lemma tagged_api_error: "tagged_error [(''error'', JStr (''API Error: '' @ m))]"
  by (simp add: tagged_error_def)

lemma tagged_not_found:
  "tagged_error [(''error'', JStr ''Channel not found'')]"
  "tagged_error [(''error'', JStr ''Video not found'')]"
  by (simp_all add: tagged_error_def)

lemma api_error_has_key: "api_error lib content = Inr d \<Longrightarrow> has_key d ''error''"
  by (auto simp: api_error_def bindE_def has_key_def split: option.splits sum.splits)

lemma channel_of_response_not_found:
  "not_found r \<Longrightarrow> channel_of_response r = Inr [(''error'', JStr ''Channel not found'')]"
  by (auto simp: not_found_def channel_of_response_def bindE_def split: sum.splits)

lemma video_of_response_not_found:
  "not_found r \<Longrightarrow> video_of_response lib r = Inr [(''error'', JStr ''Video not found'')]"
  by (auto simp: not_found_def video_of_response_def bindE_def split: sum.splits)

lemma channel_of_response_key:
  "channel_of_response r = Inr d \<Longrightarrow> has_key d ''error'' = not_found r"
  by (auto simp: not_found_def channel_of_response_def bindE_def has_key_def
      dest: channel_record_no_error split: sum.splits if_splits)

lemma video_of_response_key:
  "video_of_response lib r = Inr d \<Longrightarrow> has_key d ''error'' = not_found r"
  by (auto simp: not_found_def video_of_response_def bindE_def has_key_def
      dest: video_record_no_error split: sum.splits if_splits)

subsection \<open>Only the transport raises HttpError\<close>

lemma is_http_error_simps [simp]:
  "is_http_error (Inr v) = False"
  "is_http_error (Inl (HttpError c)) = True"
  "is_http_error (Inl (ValueError s)) = False"
  "is_http_error (Inl JSONDecodeError) = False"
  "is_http_error (Inl KeyError) = False"
  "is_http_error (Inl IndexError) = False"
  "is_http_error (Inl TypeError) = False"
  "is_http_error (Inl AttributeError) = False"
  "is_http_error (Inl (TransportError s)) = False"
  "is_http_error (Inl (OSError s)) = False"
  "is_http_error (Inl (LibraryError s)) = False"
  by (simp_all add: is_http_error_def)

lemma catch_http_other: "\<not> is_http_error r \<Longrightarrow> catch_http r h = r"
proof (cases r)
  case (Inl e)
  assume "\<not> is_http_error r"
  with Inl show ?thesis by (cases e) simp_all
next
  case (Inr v)
  then show ?thesis by simp
qed

lemma subscr_no_http [simp]: "\<not> is_http_error (subscr x k)"
  by (cases x) (simp_all split: option.splits)

lemma subscr0_no_http [simp]: "\<not> is_http_error (subscr0 x)"
  by (cases x rule: subscr0.cases) simp_all

lemma get_method_no_http [simp]: "\<not> is_http_error (get_method x k d)"
  by (cases x) (simp_all split: option.splits)

lemma bindE_no_http:
  "\<not> is_http_error r \<Longrightarrow> (\<And>v. \<not> is_http_error (f v)) \<Longrightarrow> \<not> is_http_error (bindE r f)"
  by (cases r) (simp_all add: bindE_def is_http_error_def)

lemma subscr2_no_http [simp]: "\<not> is_http_error (subscr2 x k1 k2)"
  unfolding subscr2_def by (rule bindE_no_http) simp_all

lemma subscr_get_no_http [simp]: "\<not> is_http_error (subscr_get x k1 k2 d)"
  unfolding subscr_get_def by (rule bindE_no_http) simp_all

lemma dict_literal_no_http:
  "list_all (\<lambda>kr. \<not> is_http_error (snd kr)) kvs \<Longrightarrow> \<not> is_http_error (dict_literal kvs)"
proof (induction kvs rule: dict_literal.induct)
  case 1
  then show ?case by simp
next
  case (2 k e rest)
  then show ?case by (simp add: is_http_error_def)
next
  case (3 k v rest)
  then show ?case by (cases "dict_literal rest") (simp_all add: is_http_error_def)
qed

lemma channel_record_no_http: "\<not> is_http_error (channel_record x)"
  unfolding channel_record_def
  by (rule dict_literal_no_http) (simp add: bindE_no_http)

lemma video_record_no_http: "\<not> is_http_error (video_record lib x)"
  unfolding video_record_def
  by (rule dict_literal_no_http) (simp add: bindE_no_http)

lemma channel_of_response_no_http:
  "\<not> is_http_error (channel_of_response (Inr response))"
  unfolding channel_of_response_def
  by (rule bindE_no_http, simp, rule bindE_no_http, simp)
    (simp add: bindE_no_http channel_record_no_http)

lemma video_of_response_no_http:
  "\<not> is_http_error (video_of_response lib (Inr response))"
  unfolding video_of_response_def
  by (rule bindE_no_http, simp, rule bindE_no_http, simp)
    (simp add: bindE_no_http video_record_no_http)

lemma get_channel_info_valid:
  "opt_truthy channel_id \<or> opt_truthy username \<Longrightarrow>
     get_channel_info lib tr log channel_id username =
       (catch_http (channel_of_response (tr log (channel_request channel_id username)))
          (api_error lib),
        log @ [channel_request channel_id username])"
  by (auto simp: get_channel_info_def execute_def Let_def)

lemma get_video_details_eq:
  "get_video_details lib tr log video_id =
     (catch_http (video_of_response lib (tr log (video_request video_id))) (api_error lib),
      log @ [video_request video_id])"
  by (simp add: get_video_details_def execute_def Let_def)

lemma channel_of_response_Inl: "channel_of_response (Inl e) = Inl e"
  by (simp add: channel_of_response_def bindE_def)

lemma video_of_response_Inl: "video_of_response lib (Inl e) = Inl e"
  by (simp add: video_of_response_def bindE_def)

lemma channel_outcome_error:
  assumes "not_found r \<or> structured_error lib r"
  shows "\<exists>d. catch_http (channel_of_response r) (api_error lib) = Inr d \<and> tagged_error d"
proof (cases "not_found r")
  case True
  then show ?thesis
    by (simp add: channel_of_response_not_found tagged_not_found)
next
  case False
  with assms obtain c where r: "r = Inl (HttpError c)" and sb: "structured_body lib c"
    by (auto simp: structured_error_def split: sum.splits exn.splits)
  from api_error_structured[OF sb] r show ?thesis
    by (auto simp: channel_of_response_Inl tagged_error_def)
qed

lemma video_outcome_error:
  assumes "not_found r \<or> structured_error lib r"
  shows "\<exists>d. catch_http (video_of_response lib r) (api_error lib) = Inr d \<and> tagged_error d"
proof (cases "not_found r")
  case True
  then show ?thesis
    by (simp add: video_of_response_not_found tagged_not_found)
next
  case False
  with assms obtain c where r: "r = Inl (HttpError c)" and sb: "structured_body lib c"
    by (auto simp: structured_error_def split: sum.splits exn.splits)
  from api_error_structured[OF sb] r show ?thesis
    by (auto simp: video_of_response_Inl tagged_error_def)
qed

lemma channel_outcome_key:
  assumes "catch_http (channel_of_response r) (api_error lib) = Inr d"
  shows "has_key d ''error'' = (not_found r \<or> is_http_error r)"
proof (cases r)
  case (Inl e)
  show ?thesis
  proof (cases "is_http_error r")
    case True
    with Inl obtain c where "e = HttpError c" by (cases e) simp_all
    with Inl assms have "api_error lib c = Inr d" by (simp add: channel_of_response_Inl)
    with True show ?thesis by (simp add: api_error_has_key)
  next
    case False
    with Inl have "\<not> is_http_error (Inl e :: exn + pydict)" by (simp add: is_http_error_def)
    from catch_http_other[OF this] Inl assms show ?thesis
      by (simp add: channel_of_response_Inl)
  qed
next
  case (Inr response)
  with assms have "channel_of_response r = Inr d"
    by (simp add: catch_http_other channel_of_response_no_http)
  with Inr show ?thesis by (simp add: channel_of_response_key)
qed

lemma video_outcome_key:
  assumes "catch_http (video_of_response lib r) (api_error lib) = Inr d"
  shows "has_key d ''error'' = (not_found r \<or> is_http_error r)"
proof (cases r)
  case (Inl e)
  show ?thesis
  proof (cases "is_http_error r")
    case True
    with Inl obtain c where "e = HttpError c" by (cases e) simp_all
    with Inl assms have "api_error lib c = Inr d" by (simp add: video_of_response_Inl)
    with True show ?thesis by (simp add: api_error_has_key)
  next
    case False
    with Inl have "\<not> is_http_error (Inl e :: exn + pydict)" by (simp add: is_http_error_def)
    from catch_http_other[OF this] Inl assms show ?thesis
      by (simp add: video_of_response_Inl)
  qed
next
  case (Inr response)
  with assms have "video_of_response lib r = Inr d"
    by (simp add: catch_http_other video_of_response_no_http)
  with Inr show ?thesis by (simp add: video_of_response_key)
qed

subsection \<open>The records a listing returns\<close>

lemma record_of_wf: "well_formed_item lib it \<Longrightarrow> video_data lib it = Inr (record_of lib it)"
  by (cases "video_data lib it") (simp_all add: well_formed_item_def record_of_def)

lemma process_items_records:
  assumes "process_items lib pa its v = Inr v'" and "d \<in> set v'"
  shows "d \<in> set v \<or> (\<exists>it. kept lib pa it \<and> video_data lib it = Inr d)"
proof -
  from process_items_Inr[OF assms(1)]
  have eq: "v' = v @ map (record_of lib) (filter (kept lib pa) its)"
    and wf: "\<forall>it \<in> set its. kept lib pa it \<longrightarrow> well_formed_item lib it" by simp_all
  show ?thesis
  proof (cases "d \<in> set v")
    case True
    then show ?thesis by simp
  next
    case False
    with assms(2) eq obtain it where "it \<in> set its" "kept lib pa it" "d = record_of lib it"
      by auto
    with wf record_of_wf show ?thesis by metis
  qed
qed

lemma fetch_loop_stops:
  assumes "fetch_loop lib tr pl mr pa videos tok log = Some (r, log')"
    and "I videos tok log"
    and "\<And>v t l v' t' l'. I v t l \<Longrightarrow> loop_body lib tr pl mr pa v t l = Again v' t' l' \<Longrightarrow> I v' t' l'"
  shows "\<exists>v t l. I v t l \<and> loop_body lib tr pl mr pa v t l = Stop r log'"
  using fetch_loop_invariant[where I = I, OF assms(1) assms(2)] assms(3) by simp

lemma fetch_loop_records:
  assumes "fetch_loop lib tr pl mr pa [] tok log = Some (Inr vids, log')"
  shows "\<forall>d \<in> set vids. \<exists>it. kept lib pa it \<and> video_data lib it = Inr d"
proof -
  define I where "I = (\<lambda>v (t::json) (l::request list).
    \<forall>d \<in> set v. \<exists>it. kept lib pa it \<and> video_data lib it = Inr d)"
  have "\<exists>v t l. I v t l \<and> loop_body lib tr pl mr pa v t l = Stop (Inr vids) log'"
  proof (rule fetch_loop_stops[where I = I, OF assms])
    show "I [] tok log" by (simp add: I_def)
  next
    fix v t l v' t' l'
    assume i: "I v t l" and a: "loop_body lib tr pl mr pa v t l = Again v' t' l'"
    from loop_body_Again[OF a] obtain its where "process_items lib pa its v = Inr v'" by blast
    from process_items_records[OF this] i show "I v' t' l'" unfolding I_def by blast
  qed
  then obtain v t l where i: "I v t l"
    and s: "loop_body lib tr pl mr pa v t l = Stop (Inr vids) log'" by auto
  from loop_body_Stop_Inr[OF s] show ?thesis
  proof
    assume "cap_reached mr v \<and> vids = v \<and> log' = l"
    with i show ?thesis by (simp add: I_def)
  next
    assume "\<not> cap_reached mr v \<and> log' = l @ [PlaylistItemsList playlist_part pl (page_size mr v) t] \<and>
      (\<exists>response iv its t'.
         tr l (PlaylistItemsList playlist_part pl (page_size mr v) t) = Inr response \<and>
         subscr response ''items'' = Inr iv \<and> py_iter iv = Inr its \<and>
         process_items lib pa its v = Inr vids \<and>
         get_method response ''nextPageToken'' JNull = Inr t' \<and> \<not> truthy t')"
    then obtain its where "process_items lib pa its v = Inr vids" by blast
    from process_items_records[OF this] i show ?thesis unfolding I_def by blast
  qed
qed

text \<open>What get_all_videos returns as a list: the error record alone, or what the loop returned.\<close>

lemma get_all_videos_Inr:
  assumes "get_all_videos lib tr log channel_id username mr pa = Some (Inr vids, log')"
  shows "(\<exists>d. vids = [d] \<and> has_key d ''error'') \<or>
     (\<exists>pl log1. resolves_to lib tr log channel_id username pl log1 \<and>
        fetch_loop lib tr pl mr pa [] JNull log1 = Some (Inr vids, log'))"
proof -
  from assms have valid: "opt_truthy channel_id \<or> opt_truthy username"
    by (auto simp: get_all_videos_def split: if_splits)
  with assms obtain r where vb: "videos_body lib tr log channel_id username mr pa = Some (r, log')"
    and c: "catch_http r (api_error_list lib) = Inr vids"
    by (auto simp: get_all_videos_def)
  show ?thesis
  proof (cases r)
    case (Inl e)
    show ?thesis
    proof (cases "is_http_error r")
      case True
      with Inl obtain content where "e = HttpError content" by (cases e) simp_all
      with Inl c obtain d where "api_error lib content = Inr d" "vids = [d]"
        by (auto simp: api_error_list_def bindE_def split: sum.splits)
      then show ?thesis by (auto dest: api_error_has_key)
    next
      case False
      from catch_http_other[OF this] c Inl show ?thesis by simp
    qed
  next
    case (Inr v)
    with c have rv: "r = Inr vids" by simp
    obtain ci log1 where rc: "resolve_channel lib tr log channel_id username = (ci, log1)"
      by (cases "resolve_channel lib tr log channel_id username")
    show ?thesis
    proof (cases ci)
      case (Inl e)
      with vb rc rv show ?thesis by (simp add: videos_body_def)
    next
      case info: (Inr info)
      show ?thesis
      proof (cases "has_key info ''error''")
        case True
        with vb rc rv info show ?thesis
          by (auto simp: videos_body_def bindE_def has_key_def split: sum.splits)
      next
        case False
        with vb rc rv info obtain pl where "dict_subscr info ''uploads_playlist'' = Inr pl"
          and "fetch_loop lib tr pl mr pa [] JNull log1 = Some (Inr vids, log')"
          by (auto simp: videos_body_def split: sum.splits)
        with rc info False show ?thesis by (auto simp: resolves_to_def)
      qed
    qed
  qed
qed

lemma video_of_response_record:
  assumes "video_of_response lib r = Inr d" and "\<not> has_key d ''error''"
  shows "\<exists>x. video_record lib x = Inr d"
  using assms
  by (auto simp: video_of_response_def bindE_def has_key_def split: sum.splits if_splits)

lemma get_video_details_url:
  assumes "fst (get_video_details lib tr log video_id) = Inr d" and "\<not> has_key d ''error''"
  shows "url_of_id lib d"
proof -
  let ?r = "tr log (video_request video_id)"
  from assms(1) have c: "catch_http (video_of_response lib ?r) (api_error lib) = Inr d"
    by (simp add: get_video_details_eq)
  from video_outcome_key[OF c] assms(2) have nh: "\<not> is_http_error ?r" and nf: "\<not> not_found ?r"
    by simp_all
  have "video_of_response lib ?r = Inr d"
  proof (cases ?r)
    case (Inl e)
    with nh have "\<not> is_http_error (Inl e :: exn + pydict)" by (simp add: is_http_error_def)
    from catch_http_other[OF this] c Inl show ?thesis by (simp add: video_of_response_Inl)
  next
    case (Inr response)
    with c show ?thesis by (simp add: catch_http_other video_of_response_no_http)
  qed
  from video_of_response_record[OF this assms(2)] show ?thesis
    by (auto dest: video_record_url)
qed

lemma get_all_videos_records:
  assumes "get_all_videos lib tr log channel_id username mr pa = Some (Inr vids, log')"
    and "d \<in> set vids" and "\<not> has_key d ''error''"
  shows "\<exists>it. kept lib pa it \<and> video_data lib it = Inr d"
  using get_all_videos_Inr[OF assms(1)] assms(2,3)
  by (auto dest: fetch_loop_records)

subsection \<open>Properties of the loop\<close>

subsection \<open>The listing once the channel is resolved\<close>

lemma resolves_to_valid:
  "resolves_to lib tr log channel_id username pl log1 \<Longrightarrow>
     opt_truthy channel_id \<or> opt_truthy username"
  by (auto simp: resolves_to_def resolve_channel_def get_channel_info_def split: if_splits)

lemma get_all_videos_resolved:
  assumes "resolves_to lib tr log channel_id username pl log1"
  shows "get_all_videos lib tr log channel_id username mr pa =
     map_option (\<lambda>(r, l). (catch_http r (api_error_list lib), l))
       (fetch_loop lib tr pl mr pa [] JNull log1)"
proof -
  from assms obtain info where "resolve_channel lib tr log channel_id username = (Inr info, log1)"
    and "\<not> has_key info ''error''" and "dict_subscr info ''uploads_playlist'' = Inr pl"
    by (auto simp: resolves_to_def split: prod.splits sum.splits)
  with resolves_to_valid[OF assms] show ?thesis
    by (auto simp: get_all_videos_def videos_body_def)
qed

lemma catch_http_Inr [simp]: "catch_http (Inr v) h = Inr v"
  by simp

subsection \<open>The cap bounds the list\<close>

lemma process_items_length:
  "process_items lib pa its v = Inr v' \<Longrightarrow> length v' \<le> length v + length its"
  by (drule process_items_Inr) simp



subsection \<open>Why the loop stops\<close>

lemma no_cursor_at_end_snoc:
  "tr l req = Inr response \<Longrightarrow> get_method response ''nextPageToken'' JNull = Inr t \<Longrightarrow>
     \<not> truthy t \<Longrightarrow> no_cursor_at_end tr (l @ [req])"
  by (simp add: no_cursor_at_end_def last_answer_def)

lemma fetch_loop_stop_reason:
  assumes f: "fetch_loop lib tr pl mr pa videos tok log = Some (Inr vids, log')"
  shows "cap_reached mr vids \<or> no_cursor_at_end tr log'"
proof -
  have "\<exists>v t l. True \<and> loop_body lib tr pl mr pa v t l = Stop (Inr vids) log'"
    by (rule fetch_loop_stops[where I = "\<lambda>v t l. True", OF f]) simp_all
  then obtain v t l where s: "loop_body lib tr pl mr pa v t l = Stop (Inr vids) log'" by blast
  from loop_body_Stop_Inr[OF s] show ?thesis
    by (auto intro: no_cursor_at_end_snoc)
qed

subsection \<open>Without a cap every page asks for 50\<close>

lemma fetch_loop_requests:
  assumes f: "fetch_loop lib tr pl mr pa videos tok log = Some (r, log')"
    and mr: "mr = None \<or> mr = Some 0"
  shows "\<exists>pages. log' = log @ pages \<and>
     (\<forall>req \<in> set pages. \<exists>token. req = PlaylistItemsList playlist_part pl 50 token)"
proof -
  define I where "I = (\<lambda>(v::pydict list) (t::json) (l::request list).
     \<exists>pages. l = log @ pages \<and>
       (\<forall>req \<in> set pages. \<exists>token. req = PlaylistItemsList playlist_part pl 50 token))"
  from mr have ps: "\<And>v. page_size mr v = 50" and nc: "\<And>v. \<not> cap_reached mr v" by auto
  have snoc: "I v t (l @ [PlaylistItemsList playlist_part pl 50 t'])" if "I v' t'' l" for v t l t' v' t''
    using that unfolding I_def by auto
  have "\<exists>v t l. I v t l \<and> loop_body lib tr pl mr pa v t l = Stop r log'"
  proof (rule fetch_loop_stops[where I = I, OF f])
    show "I videos tok log" by (simp add: I_def)
  next
    fix v t l v' t' l'
    assume i: "I v t l" and a: "loop_body lib tr pl mr pa v t l = Again v' t' l'"
    from loop_body_Again[OF a] ps have "l' = l @ [PlaylistItemsList playlist_part pl 50 t]" by simp
    with snoc[OF i] show "I v' t' l'" by simp
  qed
  then obtain v t l where i: "I v t l" and s: "loop_body lib tr pl mr pa v t l = Stop r log'"
    by blast
  have "log' = l @ [PlaylistItemsList playlist_part pl 50 t]"
  proof (cases r)
    case (Inl e)
    with loop_body_Stop_Inl s ps show ?thesis by metis
  next
    case (Inr vids)
    with loop_body_Stop_Inr[of lib tr pl mr pa v t l vids log'] s nc ps show ?thesis by auto
  qed
  with snoc[OF i, of v t t] show ?thesis unfolding I_def by simp
qed

lemma fetch_loop_endless:
  assumes ac: "always_continues lib tr pl pa" and mr: "mr = None \<or> mr = Some 0"
  shows "fetch_loop lib tr pl mr pa videos tok log = None"
proof (rule ccontr)
  assume "fetch_loop lib tr pl mr pa videos tok log \<noteq> None"
  then obtain r log' where f: "fetch_loop lib tr pl mr pa videos tok log = Some (r, log')" by auto
  have "\<exists>v t l. True \<and> loop_body lib tr pl mr pa v t l = Stop r log'"
    by (rule fetch_loop_stops[where I = "\<lambda>v t l. True", OF f]) simp_all
  then obtain v t l where s: "loop_body lib tr pl mr pa v t l = Stop r log'" by blast
  from mr have nc: "\<not> cap_reached mr v" by auto
  from ac obtain response iv its nxt where
    "tr l (PlaylistItemsList playlist_part pl (page_size mr v) t) = Inr response"
    "subscr response ''items'' = Inr iv" "py_iter iv = Inr its"
    "\<forall>videos. \<exists>videos'. process_items lib pa its videos = Inr videos'"
    "get_method response ''nextPageToken'' JNull = Inr nxt" "truthy nxt"
    unfolding always_continues_def by metis
  moreover then obtain v' where "process_items lib pa its v = Inr v'" by blast
  ultimately have "\<exists>v' t' l'. loop_body lib tr pl mr pa v t l = Again v' t' l'"
    using nc by (simp add: loop_body_def execute_def bindE_def)
  with s show False by auto
qed

subsection \<open>The listing on a paging provider\<close>

lemma get_all_videos_paged:
  assumes rs: "resolves_to lib tr log channel_id username pl log1"
    and sp: "serves_pages tr pl items c"
    and wf: "\<forall>it \<in> set items. well_formed_item lib it"
  shows "\<exists>log'. fetch_loop lib tr pl mr None [] JNull log1 =
            Some (Inr (map (record_of lib) (capped mr items)), log') \<and>
          get_all_videos lib tr log channel_id username mr None =
            Some (Inr (map (record_of lib) (capped mr items)), log')"
proof -
  from sp have c0: "c 0 = JNull" by (simp add: serves_pages_def)
  from fetch_loop_paged[OF sp wf, where k = 0 and mr = mr and log = log1] c0
  obtain log' where "fetch_loop lib tr pl mr None [] JNull log1 =
      Some (Inr (map (record_of lib) (capped mr items)), log')" by auto
  then show ?thesis by (simp add: get_all_videos_resolved[OF rs])
qed

subsection \<open>The stub provider\<close>

lemma position_of_cursor [simp]: "position_of (cursor_of k) = k"
  by (simp add: cursor_of_def)

lemma stub_serves_pages: "serves_pages (stub_provider items) pl items cursor_of"
  unfolding serves_pages_def
proof (intro conjI allI impI)
  show "cursor_of 0 = JNull" by (simp add: cursor_of_def)
next
  fix k :: nat assume "0 < k"
  then show "truthy (cursor_of k)" by (simp add: cursor_of_def)
next
  fix log :: "request list" and k :: nat and m :: int
  assume "0 < m \<and> m \<le> 50"
  then have "min m 50 = m" by simp
  then show "\<exists>response. stub_provider items log (PlaylistItemsList playlist_part pl m (cursor_of k)) =
          Inr response \<and>
        subscr response ''items'' = Inr (JArr (take (nat m) (drop k items))) \<and>
        get_method response ''nextPageToken'' JNull =
          Inr (if k + nat m < length items then cursor_of (k + nat m) else JNull)"
    by (simp add: page_of_def)
qed


lemma stub_item_well_formed: "well_formed_item lib (stub_item video_id published_at)"
  by (simp add: well_formed_item_def video_data_def stub_item_def subscr2_def bindE_def)

lemma uploads75_well_formed: "list_all (well_formed_item lib) uploads75"
  by (simp add: uploads75_def list_all_iff stub_item_well_formed)

lemma stub_resolves:
  "resolves_to lib (stub_provider items) [] (Some ''UC1'') None (JStr ''UU1'')
     [ChannelsList channels_part (Some ''UC1'') None]"
  by (simp add: resolves_to_def resolve_channel_def get_channel_info_def channel_request_def
      execute_def channel_of_response_def bindE_def stub_channel_def channel_record_def
      subscr2_def subscr_get_def has_key_def dict_subscr_def)


lemma endless_resolves:
  "resolves_to lib endless_provider [] (Some ''UC1'') None (JStr ''UU1'')
     [ChannelsList channels_part (Some ''UC1'') None]"
  by (simp add: resolves_to_def resolve_channel_def get_channel_info_def channel_request_def
      execute_def channel_of_response_def bindE_def stub_channel_def channel_record_def
      subscr2_def subscr_get_def has_key_def dict_subscr_def)

lemma endless_always_continues: "always_continues lib endless_provider pl pa"
  unfolding always_continues_def
  by (intro allI exI[of _ "JObj [(''items'', JArr []), (''nextPageToken'', JStr ''x'')]"]
      exI[of _ "JArr []"] exI[of _ "[]"] exI[of _ "JStr ''x''"]) simp

lemma api_error_list_has_key:
  "api_error_list lib content = Inr vids \<Longrightarrow> \<exists>d. vids = [d] \<and> has_key d ''error''"
  by (auto simp: api_error_list_def bindE_def dest: api_error_has_key split: sum.splits)

lemma catch_http_list_Inr:
  assumes "catch_http r (api_error_list lib) = Inr vids"
    and "list_all (\<lambda>d. \<not> has_key d ''error'') vids"
  shows "r = Inr vids"
proof (cases r)
  case (Inl e)
  show ?thesis
  proof (cases "is_http_error r")
    case True
    with Inl obtain content where "e = HttpError content" by (cases e) simp_all
    with Inl assms(1) have "api_error_list lib content = Inr vids" by simp
    from api_error_list_has_key[OF this] assms(2) show ?thesis by auto
  next
    case False
    from catch_http_other[OF this] assms(1) Inl show ?thesis by simp
  qed
next
  case (Inr v)
  with assms(1) show ?thesis by simp
qed


subsection \<open>The filter\<close>

lemma kept_Some:
  assumes "kept lib (Some pa) it"
  shows "\<exists>s t. subscr2 it ''snippet'' ''publishedAt'' = Inr (JStr s) \<and> strptime lib s = Some t \<and>
     published_before t pa = Inr False"
  using assms
  by (auto simp: kept_def skip_item_def bindE_def split: sum.splits json.splits option.splits)

lemma kept_iff:
  assumes "subscr2 it ''snippet'' ''publishedAt'' = Inr (JStr s)" and "strptime lib s = Some t"
    and "published_before t pa = Inr b"
  shows "kept lib (Some pa) it = (\<not> b)"
  using assms by (simp add: kept_def skip_item_def bindE_def)

lemma kept_not_before:
  assumes "kept lib (Some pa) it" and "video_data lib it = Inr d"
  shows "not_before lib pa d"
proof -
  from kept_Some[OF assms(1)] obtain s t where
    s: "subscr2 it ''snippet'' ''publishedAt'' = Inr (JStr s)" and t: "strptime lib s = Some t"
    and b: "published_before t pa = Inr False" by blast
  from video_data_published_at[OF assms(2) s] t b show ?thesis
    by (simp add: not_before_def)
qed

lemma loop_body_filtered:
  assumes "loop_body lib tr pl mr pa v t l = Again v' t' l' \<or>
     (loop_body lib tr pl mr pa v t l = Stop (Inr v') l' \<and> l' \<noteq> l)"
  shows "\<exists>response iv its.
     tr l (PlaylistItemsList playlist_part pl (page_size mr v) t) = Inr response \<and>
     subscr response ''items'' = Inr iv \<and> py_iter iv = Inr its \<and>
     v' = v @ map (record_of lib) (filter (kept lib pa) its) \<and>
     length v' \<le> length v + length its"
proof -
  from assms obtain response iv its where
    "tr l (PlaylistItemsList playlist_part pl (page_size mr v) t) = Inr response"
    "subscr response ''items'' = Inr iv" "py_iter iv = Inr its"
    and p: "process_items lib pa its v = Inr v'"
    using loop_body_Again[of lib tr pl mr pa v t l v' t' l']
      loop_body_Stop_Inr[of lib tr pl mr pa v t l v' l'] by blast
  moreover from process_items_Inr[OF p]
  have "v' = v @ map (record_of lib) (filter (kept lib pa) its)" by simp
  moreover from process_items_length[OF p] have "length v' \<le> length v + length its" .
  ultimately show ?thesis by blast
qed


subsection \<open>A request that raises\<close>

lemma fetch_loop_from_state:
  "loop_state lib tr pl mr pa n v t l = Some (v', t', l') \<Longrightarrow>
     fetch_loop lib tr pl mr pa v t l = fetch_loop lib tr pl mr pa v' t' l'"
proof (induction n arbitrary: v t l)
  case 0
  then show ?case by simp
next
  case (Suc n)
  then obtain v1 t1 l1 where b: "loop_body lib tr pl mr pa v t l = Again v1 t1 l1"
    and s: "loop_state lib tr pl mr pa n v1 t1 l1 = Some (v', t', l')"
    by (auto split: iteration.splits)
  from b have "fetch_loop lib tr pl mr pa v t l = fetch_loop lib tr pl mr pa v1 t1 l1"
    by (subst fetch_loop.simps) simp
  with Suc.IH[OF s] show ?case by simp
qed

lemma fetch_loop_raise_at:
  assumes "loop_state lib tr pl mr pa n v0 t0 l0 = Some (v, t, l)"
    and "\<not> cap_reached mr v"
    and "tr l (PlaylistItemsList playlist_part pl (page_size mr v) t) = Inl e"
  shows "fetch_loop lib tr pl mr pa v0 t0 l0 =
     Some (Inl e, l @ [PlaylistItemsList playlist_part pl (page_size mr v) t])"
proof -
  from loop_body_raise[of mr v tr l pl t e lib pa, OF assms(2,3)]
  have "fetch_loop lib tr pl mr pa v t l =
      Some (Inl e, l @ [PlaylistItemsList playlist_part pl (page_size mr v) t])"
    by (subst fetch_loop.simps) simp
  with fetch_loop_from_state[OF assms(1)] show ?thesis by simp
qed

lemma resolve_channel_valid:
  assumes "opt_truthy channel_id \<or> opt_truthy username"
  shows "resolve_channel lib tr log channel_id username =
     (catch_http (channel_of_response (tr log (resolve_request channel_id username)))
        (api_error lib),
      log @ [resolve_request channel_id username])"
  using assms
  by (cases channel_id; cases username)
    (auto simp: resolve_channel_def resolve_request_def get_channel_info_def channel_request_def
      execute_def Let_def)

lemma get_all_videos_lookup_raise:
  assumes valid: "opt_truthy channel_id \<or> opt_truthy username"
    and r: "tr log (resolve_request channel_id username) = Inl e"
    and nh: "\<not> is_http_error (Inl e :: exn + json)"
  shows "get_all_videos lib tr log channel_id username mr pa =
     Some (Inl e, log @ [resolve_request channel_id username])"
proof -
  from nh have n1: "\<not> is_http_error (Inl e :: exn + pydict)"
    and n2: "\<not> is_http_error (Inl e :: exn + pydict list)"
    by (simp_all add: is_http_error_def)
  from r catch_http_other[OF n1]
  have "resolve_channel lib tr log channel_id username =
      (Inl e, log @ [resolve_request channel_id username])"
    by (simp add: resolve_channel_valid[OF valid] channel_of_response_Inl)
  with valid catch_http_other[OF n2] show ?thesis
    by (simp add: get_all_videos_def videos_body_def)
qed

subsection \<open>The transcript file\<close>

lemma dirname_transcript_path:
  assumes "CHR ''/'' \<notin> set video_id"
  shows "dirname (transcript_path video_id) = ''./transcriptions''"
proof -
  have r: "rev (transcript_path video_id) = (''txt.'' @ rev video_id) @ ''/snoitpircsnart/.''"
    by (simp add: transcript_path_def)
  have n: "\<And>x. x \<in> set (''txt.'' @ rev video_id) \<Longrightarrow> x \<noteq> CHR ''/''"
    using assms by auto
  have "dropWhile (\<lambda>c. c \<noteq> CHR ''/'') ((''txt.'' @ rev video_id) @ ''/snoitpircsnart/.'') =
      dropWhile (\<lambda>c. c \<noteq> CHR ''/'') ''/snoitpircsnart/.''"
    by (rule dropWhile_append2) (rule n)
  with r show ?thesis by (simp add: dirname_def)
qed

lemma transcript_path_not_dir_name: "transcript_path video_id \<noteq> ''./transcriptions''"
  by (simp add: transcript_path_def)

lemma null_in_transcript_path:
  "CHR 0x00 \<in> set (transcript_path video_id) = (CHR 0x00 \<in> set video_id)"
  by (auto simp: transcript_path_def)

lemma transcript_path_not_dot: "transcript_path video_id \<noteq> ''.''"
  by (simp add: transcript_path_def)

section \<open>The claims\<close>



text \<open>
  Claim C2. With \<^verbatim>\<open>published_after\<close> supplied, every video record of a returned list has a
  publish timestamp that parses and is not strictly before it. The filter is applied after
  the page is fetched: a pass of the loop sends the request, whose size was computed from
  the records collected so far, and appends the records of those items of the answer that
  are not strictly before the instant, so a page of \<open>m\<close> raw items adds at most \<open>m\<close> records.
\<close>

theorem filter_applies_after_fetch:
  "(\<forall>videos log'.
      get_all_videos lib tr log channel_id username max_results (Some pa) =
        Some (Inr videos, log') \<longrightarrow>
      (\<forall>d \<in> set videos. \<not> has_key d ''error'' \<longrightarrow> not_before lib pa d)) \<and>
   (\<forall>v t l v' t' l'.
      loop_body lib tr pl max_results (Some pa) v t l = Again v' t' l' \<or>
      (loop_body lib tr pl max_results (Some pa) v t l = Stop (Inr v') l' \<and> l' \<noteq> l) \<longrightarrow>
      (\<exists>response iv its.
         tr l (PlaylistItemsList playlist_part pl (page_size max_results v) t) = Inr response \<and>
         subscr response ''items'' = Inr iv \<and> py_iter iv = Inr its \<and>
         v' = v @ map (record_of lib) (filter (kept lib (Some pa)) its) \<and>
         length v' \<le> length v + length its)) \<and>
   (\<forall>it s t b.
      subscr2 it ''snippet'' ''publishedAt'' = Inr (JStr s) \<and> strptime lib s = Some t \<and>
      published_before t pa = Inr b \<longrightarrow> kept lib (Some pa) it = (\<not> b))"
proof (intro conjI allI impI ballI)
  fix videos log' d
  assume "get_all_videos lib tr log channel_id username max_results (Some pa) =
        Some (Inr videos, log')" "d \<in> set videos" "\<not> has_key d ''error''"
  from get_all_videos_records[OF this] show "not_before lib pa d"
    by (auto intro: kept_not_before)
next
  fix v t l v' t' l'
  assume "loop_body lib tr pl max_results (Some pa) v t l = Again v' t' l' \<or>
      (loop_body lib tr pl max_results (Some pa) v t l = Stop (Inr v') l' \<and> l' \<noteq> l)"
  then show "\<exists>response iv its.
         tr l (PlaylistItemsList playlist_part pl (page_size max_results v) t) = Inr response \<and>
         subscr response ''items'' = Inr iv \<and> py_iter iv = Inr its \<and>
         v' = v @ map (record_of lib) (filter (kept lib (Some pa)) its) \<and>
         length v' \<le> length v + length its"
    by (rule loop_body_filtered)
next
  fix it s t b
  assume "subscr2 it ''snippet'' ''publishedAt'' = Inr (JStr s) \<and> strptime lib s = Some t \<and>
      published_before t pa = Inr b"
  then show "kept lib (Some pa) it = (\<not> b)" by (simp add: kept_iff)
qed

theorem filter_applies_after_fetch_witness:
  "get_all_videos stub_lib (stub_provider uploads3) [] (Some ''UC1'') None (Some 2)
       (Some (Naive (stamp 2024 1 1))) =
     Some (Inr [[(''id'', JStr ''a''), (''title'', JStr ''Video''), (''description'', JStr []),
                 (''publishedAt'', JStr ''2024-06-01T00:00:00Z''), (''thumbnails'', JObj []),
                 (''channelId'', JStr ''UC1''), (''channelTitle'', JStr ''Channel''),
                 (''url'', JStr ''https://www.youtube.com/watch?v=a'')],
                [(''id'', JStr ''c''), (''title'', JStr ''Video''), (''description'', JStr []),
                 (''publishedAt'', JStr ''2024-01-01T00:00:00Z''), (''thumbnails'', JObj []),
                 (''channelId'', JStr ''UC1''), (''channelTitle'', JStr ''Channel''),
                 (''url'', JStr ''https://www.youtube.com/watch?v=c'')]],
           [ChannelsList ''snippet,contentDetails,statistics'' (Some ''UC1'') None,
            PlaylistItemsList ''snippet,contentDetails'' (JStr ''UU1'') 2 JNull,
            PlaylistItemsList ''snippet,contentDetails'' (JStr ''UU1'') 1 (JStr ''xx'')]) \<and>
   not_before stub_lib (Naive (stamp 2024 1 1))
     [(''id'', JStr ''c''), (''title'', JStr ''Video''), (''description'', JStr []),
      (''publishedAt'', JStr ''2024-01-01T00:00:00Z''), (''thumbnails'', JObj []),
      (''channelId'', JStr ''UC1''), (''channelTitle'', JStr ''Channel''),
      (''url'', JStr ''https://www.youtube.com/watch?v=c'')] \<and>
   loop_body stub_lib (stub_provider uploads3) (JStr ''UU1'') (Some 2)
       (Some (Naive (stamp 2024 1 1))) [] JNull
       [ChannelsList ''snippet,contentDetails,statistics'' (Some ''UC1'') None] =
     Again [[(''id'', JStr ''a''), (''title'', JStr ''Video''), (''description'', JStr []),
             (''publishedAt'', JStr ''2024-06-01T00:00:00Z''), (''thumbnails'', JObj []),
             (''channelId'', JStr ''UC1''), (''channelTitle'', JStr ''Channel''),
             (''url'', JStr ''https://www.youtube.com/watch?v=a'')]]
       (JStr ''xx'')
       [ChannelsList ''snippet,contentDetails,statistics'' (Some ''UC1'') None,
        PlaylistItemsList ''snippet,contentDetails'' (JStr ''UU1'') 2 JNull] \<and>
   \<not> kept stub_lib (Some (Naive (stamp 2024 1 1))) (stub_item ''b'' ''2023-12-31T00:00:00Z'')"
proof -
  have g: "get_all_videos stub_lib (stub_provider uploads3) [] (Some ''UC1'') None (Some 2)
       (Some (Naive (stamp 2024 1 1))) =
     Some (Inr [[(''id'', JStr ''a''), (''title'', JStr ''Video''), (''description'', JStr []),
                 (''publishedAt'', JStr ''2024-06-01T00:00:00Z''), (''thumbnails'', JObj []),
                 (''channelId'', JStr ''UC1''), (''channelTitle'', JStr ''Channel''),
                 (''url'', JStr ''https://www.youtube.com/watch?v=a'')],
                [(''id'', JStr ''c''), (''title'', JStr ''Video''), (''description'', JStr []),
                 (''publishedAt'', JStr ''2024-01-01T00:00:00Z''), (''thumbnails'', JObj []),
                 (''channelId'', JStr ''UC1''), (''channelTitle'', JStr ''Channel''),
                 (''url'', JStr ''https://www.youtube.com/watch?v=c'')]],
           [ChannelsList ''snippet,contentDetails,statistics'' (Some ''UC1'') None,
            PlaylistItemsList ''snippet,contentDetails'' (JStr ''UU1'') 2 JNull,
            PlaylistItemsList ''snippet,contentDetails'' (JStr ''UU1'') 1 (JStr ''xx'')])"
    by code_simp
  have b: "loop_body stub_lib (stub_provider uploads3) (JStr ''UU1'') (Some 2)
       (Some (Naive (stamp 2024 1 1))) [] JNull
       [ChannelsList ''snippet,contentDetails,statistics'' (Some ''UC1'') None] =
     Again [[(''id'', JStr ''a''), (''title'', JStr ''Video''), (''description'', JStr []),
             (''publishedAt'', JStr ''2024-06-01T00:00:00Z''), (''thumbnails'', JObj []),
             (''channelId'', JStr ''UC1''), (''channelTitle'', JStr ''Channel''),
             (''url'', JStr ''https://www.youtube.com/watch?v=a'')]]
       (JStr ''xx'')
       [ChannelsList ''snippet,contentDetails,statistics'' (Some ''UC1'') None,
        PlaylistItemsList ''snippet,contentDetails'' (JStr ''UU1'') 2 JNull]"
    by code_simp
  have k: "\<not> kept stub_lib (Some (Naive (stamp 2024 1 1))) (stub_item ''b'' ''2023-12-31T00:00:00Z'')"
    by code_simp
  from filter_applies_after_fetch[of stub_lib "stub_provider uploads3" "[]" "Some ''UC1''" None
      "Some 2" "Naive (stamp 2024 1 1)" "JStr ''UU1''"] g b k
  show ?thesis by (simp add: has_key_def)
qed



text \<open>
  Claim C4. In every video record that \<^verbatim>\<open>get_video_details\<close> returns and in every video
  record of the list that \<^verbatim>\<open>get_all_videos\<close> returns (the records without the key
  \<^verbatim>\<open>error\<close>), the field \<^verbatim>\<open>url\<close> is the string \<^verbatim>\<open>https://www.youtube.com/watch?v=\<close> followed by
  the formatted \<^verbatim>\<open>id\<close> field of the same record, which for a string id is the id itself.
\<close>

theorem url_is_watch_address_of_id:
  "(\<forall>d. fst (get_video_details lib tr log video_id) = Inr d \<longrightarrow> \<not> has_key d ''error'' \<longrightarrow>
      url_of_id lib d) \<and>
   (\<forall>videos log'.
      get_all_videos lib tr log channel_id username max_results published_after =
        Some (Inr videos, log') \<longrightarrow>
      (\<forall>d \<in> set videos. \<not> has_key d ''error'' \<longrightarrow> url_of_id lib d)) \<and>
   format_value lib (JStr s) = s"
proof (intro conjI allI impI ballI)
  fix d assume "fst (get_video_details lib tr log video_id) = Inr d" "\<not> has_key d ''error''"
  then show "url_of_id lib d" by (rule get_video_details_url)
next
  fix videos log' d
  assume "get_all_videos lib tr log channel_id username max_results published_after =
        Some (Inr videos, log')" "d \<in> set videos" "\<not> has_key d ''error''"
  from get_all_videos_records[OF this] show "url_of_id lib d"
    by (auto dest: video_data_url)
next
  show "format_value lib (JStr s) = s" by (simp add: format_value_def)
qed

theorem url_is_watch_address_of_id_witness:
  "fst (get_video_details stub_lib (stub_provider uploads3) [] ''abc'') =
     Inr [(''id'', JStr ''abc''), (''title'', JStr ''Video''), (''description'', JStr []),
          (''publishedAt'', JStr ''2024-01-01T00:00:00Z''), (''thumbnails'', JObj []),
          (''channelId'', JStr ''UC1''), (''channelTitle'', JStr ''Channel''),
          (''tags'', JArr []), (''categoryId'', JStr []), (''duration'', JStr ''PT1M''),
          (''viewCount'', JStr ''10''), (''likeCount'', JInt 0), (''commentCount'', JInt 0),
          (''url'', JStr ''https://www.youtube.com/watch?v=abc'')] \<and>
   get_all_videos stub_lib (stub_provider uploads3) [] (Some ''UC1'') None (Some 2) None =
     Some (Inr [[(''id'', JStr ''a''), (''title'', JStr ''Video''), (''description'', JStr []),
                 (''publishedAt'', JStr ''2024-06-01T00:00:00Z''), (''thumbnails'', JObj []),
                 (''channelId'', JStr ''UC1''), (''channelTitle'', JStr ''Channel''),
                 (''url'', JStr ''https://www.youtube.com/watch?v=a'')],
                [(''id'', JStr ''b''), (''title'', JStr ''Video''), (''description'', JStr []),
                 (''publishedAt'', JStr ''2023-12-31T00:00:00Z''), (''thumbnails'', JObj []),
                 (''channelId'', JStr ''UC1''), (''channelTitle'', JStr ''Channel''),
                 (''url'', JStr ''https://www.youtube.com/watch?v=b'')]],
           [ChannelsList ''snippet,contentDetails,statistics'' (Some ''UC1'') None,
            PlaylistItemsList ''snippet,contentDetails'' (JStr ''UU1'') 2 JNull]) \<and>
   url_of_id stub_lib
     [(''id'', JStr ''a''), (''title'', JStr ''Video''), (''description'', JStr []),
      (''publishedAt'', JStr ''2024-06-01T00:00:00Z''), (''thumbnails'', JObj []),
      (''channelId'', JStr ''UC1''), (''channelTitle'', JStr ''Channel''),
      (''url'', JStr ''https://www.youtube.com/watch?v=a'')]"
proof -
  have d: "fst (get_video_details stub_lib (stub_provider uploads3) [] ''abc'') =
     Inr [(''id'', JStr ''abc''), (''title'', JStr ''Video''), (''description'', JStr []),
          (''publishedAt'', JStr ''2024-01-01T00:00:00Z''), (''thumbnails'', JObj []),
          (''channelId'', JStr ''UC1''), (''channelTitle'', JStr ''Channel''),
          (''tags'', JArr []), (''categoryId'', JStr []), (''duration'', JStr ''PT1M''),
          (''viewCount'', JStr ''10''), (''likeCount'', JInt 0), (''commentCount'', JInt 0),
          (''url'', JStr ''https://www.youtube.com/watch?v=abc'')]"
    by code_simp
  have v: "get_all_videos stub_lib (stub_provider uploads3) [] (Some ''UC1'') None (Some 2) None =
     Some (Inr [[(''id'', JStr ''a''), (''title'', JStr ''Video''), (''description'', JStr []),
                 (''publishedAt'', JStr ''2024-06-01T00:00:00Z''), (''thumbnails'', JObj []),
                 (''channelId'', JStr ''UC1''), (''channelTitle'', JStr ''Channel''),
                 (''url'', JStr ''https://www.youtube.com/watch?v=a'')],
                [(''id'', JStr ''b''), (''title'', JStr ''Video''), (''description'', JStr []),
                 (''publishedAt'', JStr ''2023-12-31T00:00:00Z''), (''thumbnails'', JObj []),
                 (''channelId'', JStr ''UC1''), (''channelTitle'', JStr ''Channel''),
                 (''url'', JStr ''https://www.youtube.com/watch?v=b'')]],
           [ChannelsList ''snippet,contentDetails,statistics'' (Some ''UC1'') None,
            PlaylistItemsList ''snippet,contentDetails'' (JStr ''UU1'') 2 JNull])"
    by code_simp
  from url_is_watch_address_of_id[of stub_lib "stub_provider uploads3" "[]" "''abc''"
      "Some ''UC1''" None "Some 2" None] d v
  show ?thesis by (simp add: has_key_def)
qed

text \<open>
  Claim C5. For \<^verbatim>\<open>get_channel_info\<close> (called with an identifier) and \<^verbatim>\<open>get_video_details\<close>:
  when the remote service answers with no item, or raises an \<^verbatim>\<open>HttpError\<close> whose body is a
  structured error, the call returns (it does not raise) an error record, the single key
  \<^verbatim>\<open>error\<close> with a non-empty message; and whatever record a call returns, it has the key
  \<^verbatim>\<open>error\<close> exactly when the answer was such a failure, so a success record never has it.
\<close>

theorem lookup_failures_are_tagged_values:
  "(opt_truthy channel_id \<or> opt_truthy username \<longrightarrow>
      (not_found (tr log (channel_request channel_id username)) \<or>
       structured_error lib (tr log (channel_request channel_id username)) \<longrightarrow>
         (\<exists>d. fst (get_channel_info lib tr log channel_id username) = Inr d \<and> tagged_error d)) \<and>
      (\<forall>d. fst (get_channel_info lib tr log channel_id username) = Inr d \<longrightarrow>
         has_key d ''error'' =
           (not_found (tr log (channel_request channel_id username)) \<or>
            is_http_error (tr log (channel_request channel_id username))))) \<and>
   (not_found (tr log (video_request video_id)) \<or>
    structured_error lib (tr log (video_request video_id)) \<longrightarrow>
      (\<exists>d. fst (get_video_details lib tr log video_id) = Inr d \<and> tagged_error d)) \<and>
   (\<forall>d. fst (get_video_details lib tr log video_id) = Inr d \<longrightarrow>
      has_key d ''error'' =
        (not_found (tr log (video_request video_id)) \<or>
         is_http_error (tr log (video_request video_id))))"
proof (intro conjI impI allI)
  assume v: "opt_truthy channel_id \<or> opt_truthy username"
  {
    assume "not_found (tr log (channel_request channel_id username)) \<or>
       structured_error lib (tr log (channel_request channel_id username))"
    from channel_outcome_error[OF this]
    show "\<exists>d. fst (get_channel_info lib tr log channel_id username) = Inr d \<and> tagged_error d"
      by (simp add: get_channel_info_valid[OF v])
  }
  {
    fix d assume "fst (get_channel_info lib tr log channel_id username) = Inr d"
    then show "has_key d ''error'' =
           (not_found (tr log (channel_request channel_id username)) \<or>
            is_http_error (tr log (channel_request channel_id username)))"
      by (simp add: get_channel_info_valid[OF v] channel_outcome_key)
  }
next
  assume "not_found (tr log (video_request video_id)) \<or>
    structured_error lib (tr log (video_request video_id))"
  from video_outcome_error[OF this]
  show "\<exists>d. fst (get_video_details lib tr log video_id) = Inr d \<and> tagged_error d"
    by (simp add: get_video_details_eq)
next
  fix d assume "fst (get_video_details lib tr log video_id) = Inr d"
  then show "has_key d ''error'' =
        (not_found (tr log (video_request video_id)) \<or>
         is_http_error (tr log (video_request video_id)))"
    by (simp add: get_video_details_eq video_outcome_key)
qed


theorem lookup_failures_are_tagged_values_witness:
  "opt_truthy (Some ''UC1'') \<and>
   structured_error stub_lib
     (failing_after 0 (HttpError error_body) (stub_provider uploads3) []
        (channel_request (Some ''UC1'') None)) \<and>
   fst (get_channel_info stub_lib (failing_after 0 (HttpError error_body) (stub_provider uploads3))
          [] (Some ''UC1'') None) = Inr [(''error'', JStr ''API Error: quotaExceeded'')] \<and>
   tagged_error [(''error'', JStr ''API Error: quotaExceeded'')] \<and>
   has_key [(''error'', JStr ''API Error: quotaExceeded'')] ''error'' \<and>
   not_found (stub_provider uploads3 [] (video_request [])) \<and>
   fst (get_video_details stub_lib (stub_provider uploads3) [] []) =
     Inr [(''error'', JStr ''Video not found'')] \<and>
   tagged_error [(''error'', JStr ''Video not found'')]"
  using lookup_failures_are_tagged_values[of "Some ''UC1''" None
      "failing_after 0 (HttpError error_body) (stub_provider uploads3)" "[]" stub_lib "[]"]
    lookup_failures_are_tagged_values[of "Some ''UC1''" None "stub_provider uploads3" "[]" stub_lib "[]"]
  by (simp add: get_channel_info_def get_video_details_def execute_def channel_request_def
      video_request_def failing_after_def stub_lib_def error_body_def structured_error_def
      structured_body_def subscr2_def bindE_def channel_of_response_def video_of_response_def
      api_error_def format_value_def tagged_error_def has_key_def not_found_def)

text \<open>
  Claim C6. When both \<^verbatim>\<open>channel_id\<close> and \<^verbatim>\<open>username\<close> are absent (or empty),
  \<^verbatim>\<open>get_channel_info\<close> and \<^verbatim>\<open>get_all_videos\<close> raise the validation error and the log of
  requests is as it was: no request has been sent.
\<close>

theorem validation_precedes_network:
  assumes "\<not> opt_truthy channel_id" and "\<not> opt_truthy username"
  shows "get_channel_info lib tr log channel_id username =
       (Inl (ValueError ''Either channel_id or username must be provided''), log) \<and>
     get_all_videos lib tr log channel_id username max_results published_after =
       Some (Inl (ValueError ''Either channel_id or username must be provided''), log)"
  using assms by (simp add: get_channel_info_def get_all_videos_def)

theorem validation_precedes_network_witness:
  "\<not> opt_truthy None \<and>
   get_channel_info stub_lib (stub_provider uploads3) [] None None =
       (Inl (ValueError ''Either channel_id or username must be provided''), []) \<and>
   get_all_videos stub_lib (stub_provider uploads3) [] None None (Some 10) None =
       Some (Inl (ValueError ''Either channel_id or username must be provided''), []) \<and>
   length ([] :: request list) = 0"
  using validation_precedes_network[of None None stub_lib "stub_provider uploads3" "[]" "Some 10" None]
  by simp

text \<open>
  Claim C7, as amended. In \<^verbatim>\<open>get_all_videos\<close>, called with an identifier, the failures the
  code handles are returned in-band: when the channel lookup returns an error record, the
  call returns the one-element list that wraps that error; and when, after any number of
  passes of the loop, the page request is answered with an \<^verbatim>\<open>HttpError\<close> whose body is a
  structured error, the call returns the one-element list of the API error record, whatever
  records the earlier pages had given. An exception of a request that is not an
  \<^verbatim>\<open>HttpError\<close>, at the channel lookup or at any page, is not handled: the call raises it.
\<close>

theorem handled_failures_returned_in_band:
  "(\<forall>info log1.
      resolve_channel lib tr log channel_id username = (Inr info, log1) \<and>
      has_key info ''error'' \<longrightarrow>
      (\<exists>v. map_of info ''error'' = Some v \<and>
         get_all_videos lib tr log channel_id username max_results published_after =
           Some (Inr [[(''error'', v)]], log1))) \<and>
   (\<forall>pl log1 n v t l.
      resolves_to lib tr log channel_id username pl log1 \<and>
      loop_state lib tr pl max_results published_after n [] JNull log1 = Some (v, t, l) \<and>
      \<not> cap_reached max_results v \<longrightarrow>
      (\<forall>content.
         tr l (PlaylistItemsList playlist_part pl (page_size max_results v) t) =
           Inl (HttpError content) \<and>
         structured_body lib content \<longrightarrow>
         (\<exists>message.
            get_all_videos lib tr log channel_id username max_results published_after =
              Some (Inr [[(''error'', JStr (''API Error: '' @ message))]],
                    l @ [PlaylistItemsList playlist_part pl (page_size max_results v) t]))) \<and>
      (\<forall>e.
         tr l (PlaylistItemsList playlist_part pl (page_size max_results v) t) = Inl e \<and>
         \<not> is_http_error (Inl e :: exn + json) \<longrightarrow>
         get_all_videos lib tr log channel_id username max_results published_after =
           Some (Inl e, l @ [PlaylistItemsList playlist_part pl (page_size max_results v) t]))) \<and>
   (\<forall>e.
      (opt_truthy channel_id \<or> opt_truthy username) \<and>
      tr log (resolve_request channel_id username) = Inl e \<and>
      \<not> is_http_error (Inl e :: exn + json) \<longrightarrow>
      get_all_videos lib tr log channel_id username max_results published_after =
        Some (Inl e, log @ [resolve_request channel_id username]))"
proof (intro conjI allI impI)
  fix info log1
  assume h: "resolve_channel lib tr log channel_id username = (Inr info, log1) \<and>
      has_key info ''error''"
  then have "opt_truthy channel_id \<or> opt_truthy username"
    by (auto simp: resolve_channel_def get_channel_info_def split: if_splits)
  moreover from h obtain v where "map_of info ''error'' = Some v" by (auto simp: has_key_def)
  ultimately show "\<exists>v. map_of info ''error'' = Some v \<and>
         get_all_videos lib tr log channel_id username max_results published_after =
           Some (Inr [[(''error'', v)]], log1)"
    using h by (auto simp: get_all_videos_def videos_body_def dict_subscr_def bindE_def)
next
  fix pl log1 n v t l content
  assume s: "resolves_to lib tr log channel_id username pl log1 \<and>
      loop_state lib tr pl max_results published_after n [] JNull log1 = Some (v, t, l) \<and>
      \<not> cap_reached max_results v"
    and e: "tr l (PlaylistItemsList playlist_part pl (page_size max_results v) t) =
           Inl (HttpError content) \<and> structured_body lib content"
  from s have rs: "resolves_to lib tr log channel_id username pl log1"
    and st: "loop_state lib tr pl max_results published_after n [] JNull log1 = Some (v, t, l)"
    and nc: "\<not> cap_reached max_results v"
    by simp_all
  from e have te: "tr l (PlaylistItemsList playlist_part pl (page_size max_results v) t) =
      Inl (HttpError content)"
    and sb: "structured_body lib content"
    by simp_all
  note f = fetch_loop_raise_at[OF st nc te]
  from api_error_structured[OF sb] obtain message where
    m: "api_error lib content = Inr [(''error'', JStr (''API Error: '' @ message))]" by blast
  have "get_all_videos lib tr log channel_id username max_results published_after =
      Some (Inr [[(''error'', JStr (''API Error: '' @ message))]],
            l @ [PlaylistItemsList playlist_part pl (page_size max_results v) t])"
    unfolding get_all_videos_resolved[OF rs] f
    by (simp add: api_error_list_def bindE_def m)
  then show "\<exists>message.
            get_all_videos lib tr log channel_id username max_results published_after =
              Some (Inr [[(''error'', JStr (''API Error: '' @ message))]],
                    l @ [PlaylistItemsList playlist_part pl (page_size max_results v) t])"
    by (rule exI)
next
  fix pl log1 n v t l e
  assume s: "resolves_to lib tr log channel_id username pl log1 \<and>
      loop_state lib tr pl max_results published_after n [] JNull log1 = Some (v, t, l) \<and>
      \<not> cap_reached max_results v"
    and e: "tr l (PlaylistItemsList playlist_part pl (page_size max_results v) t) = Inl e \<and>
         \<not> is_http_error (Inl e :: exn + json)"
  from s have rs: "resolves_to lib tr log channel_id username pl log1"
    and st: "loop_state lib tr pl max_results published_after n [] JNull log1 = Some (v, t, l)"
    and nc: "\<not> cap_reached max_results v"
    by simp_all
  from e have te: "tr l (PlaylistItemsList playlist_part pl (page_size max_results v) t) = Inl e"
    by simp
  note f = fetch_loop_raise_at[OF st nc te]
  from e have "\<not> is_http_error (Inl e :: exn + pydict list)" by (simp add: is_http_error_def)
  from catch_http_other[OF this]
  show "get_all_videos lib tr log channel_id username max_results published_after =
           Some (Inl e, l @ [PlaylistItemsList playlist_part pl (page_size max_results v) t])"
    unfolding get_all_videos_resolved[OF rs] f by simp
next
  fix e
  assume "(opt_truthy channel_id \<or> opt_truthy username) \<and>
      tr log (resolve_request channel_id username) = Inl e \<and>
      \<not> is_http_error (Inl e :: exn + json)"
  then show "get_all_videos lib tr log channel_id username max_results published_after =
        Some (Inl e, log @ [resolve_request channel_id username])"
    by (simp add: get_all_videos_lookup_raise)
qed

theorem handled_failures_returned_in_band_witness:
  "resolve_channel stub_lib (failing_after 0 (HttpError error_body) (stub_provider uploads3))
       [] (Some ''UC1'') None =
     (Inr [(''error'', JStr ''API Error: quotaExceeded'')],
      [ChannelsList ''snippet,contentDetails,statistics'' (Some ''UC1'') None]) \<and>
   has_key [(''error'', JStr ''API Error: quotaExceeded'')] ''error'' \<and>
   (\<exists>v. map_of [(''error'', JStr ''API Error: quotaExceeded'')] ''error'' = Some v \<and>
      get_all_videos stub_lib (failing_after 0 (HttpError error_body) (stub_provider uploads3))
          [] (Some ''UC1'') None (Some 2) (Some (Naive (stamp 2024 1 1))) =
        Some (Inr [[(''error'', v)]],
              [ChannelsList ''snippet,contentDetails,statistics'' (Some ''UC1'') None])) \<and>
   resolves_to stub_lib (failing_after 2 (HttpError error_body) (stub_provider uploads3))
       [] (Some ''UC1'') None (JStr ''UU1'')
       [ChannelsList ''snippet,contentDetails,statistics'' (Some ''UC1'') None] \<and>
   loop_state stub_lib (failing_after 2 (HttpError error_body) (stub_provider uploads3))
       (JStr ''UU1'') (Some 2) (Some (Naive (stamp 2024 1 1))) 1 [] JNull
       [ChannelsList ''snippet,contentDetails,statistics'' (Some ''UC1'') None] =
     Some ([[(''id'', JStr ''a''), (''title'', JStr ''Video''), (''description'', JStr []),
             (''publishedAt'', JStr ''2024-06-01T00:00:00Z''), (''thumbnails'', JObj []),
             (''channelId'', JStr ''UC1''), (''channelTitle'', JStr ''Channel''),
             (''url'', JStr ''https://www.youtube.com/watch?v=a'')]],
           JStr ''xx'',
           [ChannelsList ''snippet,contentDetails,statistics'' (Some ''UC1'') None,
            PlaylistItemsList ''snippet,contentDetails'' (JStr ''UU1'') 2 JNull]) \<and>
   structured_body stub_lib error_body \<and>
   (\<exists>message.
      get_all_videos stub_lib (failing_after 2 (HttpError error_body) (stub_provider uploads3))
          [] (Some ''UC1'') None (Some 2) (Some (Naive (stamp 2024 1 1))) =
        Some (Inr [[(''error'', JStr (''API Error: '' @ message))]],
              [ChannelsList ''snippet,contentDetails,statistics'' (Some ''UC1'') None,
               PlaylistItemsList ''snippet,contentDetails'' (JStr ''UU1'') 2 JNull,
               PlaylistItemsList ''snippet,contentDetails'' (JStr ''UU1'') 1 (JStr ''xx'')])) \<and>
   get_all_videos stub_lib (failing_after 2 (TransportError ''timed out'') (stub_provider uploads3))
       [] (Some ''UC1'') None (Some 2) (Some (Naive (stamp 2024 1 1))) =
     Some (Inl (TransportError ''timed out''),
           [ChannelsList ''snippet,contentDetails,statistics'' (Some ''UC1'') None,
            PlaylistItemsList ''snippet,contentDetails'' (JStr ''UU1'') 2 JNull,
            PlaylistItemsList ''snippet,contentDetails'' (JStr ''UU1'') 1 (JStr ''xx'')]) \<and>
   get_all_videos stub_lib (failing_after 0 (TransportError ''timed out'') (stub_provider uploads3))
       [] (Some ''UC1'') None (Some 2) (Some (Naive (stamp 2024 1 1))) =
     Some (Inl (TransportError ''timed out''),
           [ChannelsList ''snippet,contentDetails,statistics'' (Some ''UC1'') None])"
proof -
  let ?chan = "ChannelsList ''snippet,contentDetails,statistics'' (Some ''UC1'') None"
  let ?page1 = "PlaylistItemsList ''snippet,contentDetails'' (JStr ''UU1'') 2 JNull"
  let ?page2 = "PlaylistItemsList ''snippet,contentDetails'' (JStr ''UU1'') 1 (JStr ''xx'')"
  let ?next = "PlaylistItemsList playlist_part (JStr ''UU1'')
      (page_size (Some 2)
         [[(''id'', JStr ''a''), (''title'', JStr ''Video''), (''description'', JStr []),
           (''publishedAt'', JStr ''2024-06-01T00:00:00Z''), (''thumbnails'', JObj []),
           (''channelId'', JStr ''UC1''), (''channelTitle'', JStr ''Channel''),
           (''url'', JStr ''https://www.youtube.com/watch?v=a'')]])
      (JStr ''xx'')"
  let ?pa = "Some (Naive (stamp 2024 1 1))"
  let ?a = "[(''id'', JStr ''a''), (''title'', JStr ''Video''), (''description'', JStr []),
             (''publishedAt'', JStr ''2024-06-01T00:00:00Z''), (''thumbnails'', JObj []),
             (''channelId'', JStr ''UC1''), (''channelTitle'', JStr ''Channel''),
             (''url'', JStr ''https://www.youtube.com/watch?v=a'')]"
  let ?h0 = "failing_after 0 (HttpError error_body) (stub_provider uploads3)"
  let ?h2 = "failing_after 2 (HttpError error_body) (stub_provider uploads3)"
  let ?t0 = "failing_after 0 (TransportError ''timed out'') (stub_provider uploads3)"
  let ?t2 = "failing_after 2 (TransportError ''timed out'') (stub_provider uploads3)"
  have rc: "resolve_channel stub_lib ?h0 [] (Some ''UC1'') None =
      (Inr [(''error'', JStr ''API Error: quotaExceeded'')], [?chan])"
    by code_simp
  have hk: "has_key [(''error'', JStr ''API Error: quotaExceeded'')] ''error''"
    by (simp add: has_key_def)
  have rh: "resolves_to stub_lib ?h2 [] (Some ''UC1'') None (JStr ''UU1'') [?chan]"
    by code_simp
  have rt: "resolves_to stub_lib ?t2 [] (Some ''UC1'') None (JStr ''UU1'') [?chan]"
    by code_simp
  have lh: "loop_state stub_lib ?h2 (JStr ''UU1'') (Some 2) ?pa 1 [] JNull [?chan] =
      Some ([?a], JStr ''xx'', [?chan, ?page1])"
    by code_simp
  have lt: "loop_state stub_lib ?t2 (JStr ''UU1'') (Some 2) ?pa 1 [] JNull [?chan] =
      Some ([?a], JStr ''xx'', [?chan, ?page1])"
    by code_simp
  have nc: "\<not> cap_reached (Some 2) [?a]" by simp
  have nx: "?next = ?page2" by (simp add: playlist_part_def)
  have ah: "?h2 [?chan, ?page1] ?next = Inl (HttpError error_body)"
    by (simp add: failing_after_def)
  have at: "?t2 [?chan, ?page1] ?next = Inl (TransportError ''timed out'')"
    by (simp add: failing_after_def)
  have a0: "?t0 [] (resolve_request (Some ''UC1'') None) = Inl (TransportError ''timed out'')"
    by (simp add: failing_after_def)
  have sb: "structured_body stub_lib error_body"
    by code_simp
  have nh: "\<not> is_http_error (Inl (TransportError ''timed out'') :: exn + json)"
    by simp
  have rq: "resolve_request (Some ''UC1'') None = ?chan"
    by (simp add: resolve_request_def channel_request_def channels_part_def)
  have vl: "opt_truthy (Some ''UC1'') \<or> opt_truthy None" by simp
  note th = handled_failures_returned_in_band
  note g0 = th[of stub_lib ?h0 "[]" "Some ''UC1''" None "Some 2" ?pa,
      THEN conjunct1, rule_format, OF conjI[OF rc hk]]
  note g2 = th[of stub_lib ?h2 "[]" "Some ''UC1''" None "Some 2" ?pa,
      THEN conjunct2, THEN conjunct1, rule_format, OF conjI[OF rh conjI[OF lh nc]],
      THEN conjunct1, rule_format, OF conjI[OF ah sb]]
  note g3 = th[of stub_lib ?t2 "[]" "Some ''UC1''" None "Some 2" ?pa,
      THEN conjunct2, THEN conjunct1, rule_format, OF conjI[OF rt conjI[OF lt nc]],
      THEN conjunct2, rule_format, OF conjI[OF at nh]]
  note g4 = th[of stub_lib ?t0 "[]" "Some ''UC1''" None "Some 2" ?pa,
      THEN conjunct2, THEN conjunct2, rule_format, OF conjI[OF vl conjI[OF a0 nh]]]
  from g2 have g2': "\<exists>message.
      get_all_videos stub_lib ?h2 [] (Some ''UC1'') None (Some 2) ?pa =
        Some (Inr [[(''error'', JStr (''API Error: '' @ message))]], [?chan, ?page1, ?page2])"
    by (simp add: playlist_part_def)
  from g3 have g3': "get_all_videos stub_lib ?t2 [] (Some ''UC1'') None (Some 2) ?pa =
      Some (Inl (TransportError ''timed out''), [?chan, ?page1, ?page2])"
    by (simp add: playlist_part_def)
  from g4 have g4': "get_all_videos stub_lib ?t0 [] (Some ''UC1'') None (Some 2) ?pa =
      Some (Inl (TransportError ''timed out''), [?chan])"
    by (simp add: rq)
  show ?thesis
    by (intro conjI) (rule rc hk g0 rh lh sb g2' g3' g4')+
qed

text \<open>
  The claim as stated fails: an exception of the transport that is not an \<^verbatim>\<open>HttpError\<close>,
  here a time-out of the first page request, is not caught, and the call raises it.
\<close>

theorem transport_failure_is_raised_counterexample:
  "get_all_videos stub_lib
       (failing_after 1 (TransportError ''timed out'') (stub_provider uploads75))
       [] (Some ''UC1'') None (Some 60) None =
     Some (Inl (TransportError ''timed out''),
           [ChannelsList ''snippet,contentDetails,statistics'' (Some ''UC1'') None,
            PlaylistItemsList ''snippet,contentDetails'' (JStr ''UU1'') 50 JNull])"
  by code_simp

text \<open>
  Outside the claim as amended: an \<^verbatim>\<open>HttpError\<close> whose body is not JSON. The handler
  decodes the body with no guard, and the call ends with the decoder's exception.
\<close>

lemma html_error_body_evaluation:
  "get_all_videos stub_lib
       (failing_after 2 (HttpError ''<html>502 Bad Gateway</html>'') (stub_provider uploads75))
       [] (Some ''UC1'') None (Some 60) None =
     Some (Inl JSONDecodeError,
           [ChannelsList ''snippet,contentDetails,statistics'' (Some ''UC1'') None,
            PlaylistItemsList ''snippet,contentDetails'' (JStr ''UU1'') 50 JNull,
            PlaylistItemsList ''snippet,contentDetails'' (JStr ''UU1'') 10
              (JStr ''xxxxxxxxxxxxxxxxxxxxxxxxxxxxxxxxxxxxxxxxxxxxxxxxxx'')])"
  by code_simp

text \<open>
  Claim C8. With \<^verbatim>\<open>max_results\<close> falsy (\<^verbatim>\<open>None\<close> or 0), once the channel is resolved: every
  request the loop sends asks for exactly 50 items; a call that returns a list of video
  records has had a last page with no continuation cursor; on a paging provider the call
  returns the whole collection, whatever its length; and on a provider whose pages always
  carry a cursor the call never returns.
\<close>

theorem uncapped_listing:
  assumes "max_results = None \<or> max_results = Some 0"
    and "resolves_to lib tr log channel_id username pl log1"
  shows
   "(\<forall>r log'.
       get_all_videos lib tr log channel_id username max_results published_after = Some (r, log') \<longrightarrow>
       (\<exists>pages. log' = log1 @ pages \<and>
          (\<forall>req \<in> set pages. \<exists>token. req = PlaylistItemsList playlist_part pl 50 token)) \<and>
       (\<forall>videos. r = Inr videos \<and> list_all (\<lambda>d. \<not> has_key d ''error'') videos \<longrightarrow>
          no_cursor_at_end tr log')) \<and>
    (serves_pages tr pl items c \<and> list_all (well_formed_item lib) items \<longrightarrow>
       (\<exists>log'. get_all_videos lib tr log channel_id username max_results None =
          Some (Inr (map (record_of lib) items), log'))) \<and>
    (always_continues lib tr pl published_after \<longrightarrow>
       get_all_videos lib tr log channel_id username max_results published_after = None)"
proof (intro conjI allI impI)
  fix r log'
  assume g: "get_all_videos lib tr log channel_id username max_results published_after =
    Some (r, log')"
  then obtain rl where f: "fetch_loop lib tr pl max_results published_after [] JNull log1 =
      Some (rl, log')" and r: "r = catch_http rl (api_error_list lib)"
    by (auto simp: get_all_videos_resolved[OF assms(2)])
  from fetch_loop_requests[OF f assms(1)]
  show "\<exists>pages. log' = log1 @ pages \<and>
          (\<forall>req \<in> set pages. \<exists>token. req = PlaylistItemsList playlist_part pl 50 token)" .
  fix videos
  assume "r = Inr videos \<and> list_all (\<lambda>d. \<not> has_key d ''error'') videos"
  with r catch_http_list_Inr[of rl lib videos] have "rl = Inr videos" by simp
  with f fetch_loop_stop_reason[of lib tr pl max_results published_after "[]" JNull log1 videos log']
    assms(1)
  show "no_cursor_at_end tr log'" by auto
next
  assume h: "serves_pages tr pl items c \<and> list_all (well_formed_item lib) items"
  then have wf: "\<forall>it \<in> set items. well_formed_item lib it" by (simp add: list_all_iff)
  from assms(1) have "capped max_results items = items" by auto
  with get_all_videos_paged[OF assms(2) _ wf, of c max_results] h
  show "\<exists>log'. get_all_videos lib tr log channel_id username max_results None =
          Some (Inr (map (record_of lib) items), log')" by auto
next
  assume "always_continues lib tr pl published_after"
  from fetch_loop_endless[OF this assms(1)]
  show "get_all_videos lib tr log channel_id username max_results published_after = None"
    by (simp add: get_all_videos_resolved[OF assms(2)])
qed

theorem uncapped_listing_witness:
  "resolves_to stub_lib (stub_provider uploads75) [] (Some ''UC1'') None (JStr ''UU1'')
     [ChannelsList channels_part (Some ''UC1'') None] \<and>
   serves_pages (stub_provider uploads75) (JStr ''UU1'') uploads75 cursor_of \<and>
   list_all (well_formed_item stub_lib) uploads75 \<and>
   (\<exists>log'. get_all_videos stub_lib (stub_provider uploads75) [] (Some ''UC1'') None None None =
      Some (Inr (map (record_of stub_lib) uploads75), log')) \<and>
   length (map (record_of stub_lib) uploads75) = 75 \<and>
   resolves_to stub_lib endless_provider [] (Some ''UC1'') None (JStr ''UU1'')
     [ChannelsList channels_part (Some ''UC1'') None] \<and>
   always_continues stub_lib endless_provider (JStr ''UU1'') None \<and>
   get_all_videos stub_lib endless_provider [] (Some ''UC1'') None (Some 0) None = None"
proof -
  have l: "length uploads75 = 75" by (simp add: uploads75_def)
  from uncapped_listing[OF _ stub_resolves[of stub_lib uploads75],
      of None None uploads75 cursor_of]
    uncapped_listing[OF _ endless_resolves[of stub_lib], of "Some 0" None "[]" cursor_of]
    stub_resolves[of stub_lib uploads75] endless_resolves[of stub_lib]
    stub_serves_pages[of uploads75 "JStr ''UU1''"] uploads75_well_formed[of stub_lib]
    endless_always_continues[of stub_lib "JStr ''UU1''" None] l
  show ?thesis by simp
qed

text \<open>
  Claim C9, as amended. When the transcript fetch returns its snippets, the video id has no
  \<^verbatim>\<open>/\<close> and no null character, \<^verbatim>\<open>./transcriptions\<close> is a directory or can be made one (the
  working directory exists, the name is free and the operating system lets the directory
  be created), the target path is not a directory, the operating system lets the file be
  opened and written, and the caption encodes in the default encoding of \<^verbatim>\<open>open\<close> (the
  code names none), then the helper returns, and the file system differs from the one
  before in this only: \<^verbatim>\<open>./transcriptions\<close> is a directory, and the file
  \<^verbatim>\<open>./transcriptions/<video_id>.txt\<close> holds the encoded caption, whatever it held before.
\<close>

theorem transcript_writes_one_file:
  assumes "fetch env video_id languages = Inr snippets"
    and "default_encode env (join_space snippets) = Inr b"
    and "CHR ''/'' \<notin> set video_id" and "CHR 0x00 \<notin> set video_id"
    and "''./transcriptions'' \<in> dirs fs \<or>
         (''.'' \<in> dirs fs \<and> files fs ''./transcriptions'' = None \<and>
          mkdir_error env ''./transcriptions'' = None)"
    and "transcript_path video_id \<notin> dirs fs"
    and "open_error env (transcript_path video_id) = None"
    and "write_error env (transcript_path video_id) b = None"
  shows "transcript env fs video_id languages =
     (Inr (), fs\<lparr>dirs := insert ''./transcriptions'' (dirs fs),
                 files := (files fs)(transcript_path video_id \<mapsto> b)\<rparr>)"
proof (cases "''./transcriptions'' \<in> dirs fs")
  case True
  then have "insert ''./transcriptions'' (dirs fs) = dirs fs" by auto
  with True assms show ?thesis
    by (simp add: transcript_def isdir_def write_text_def dirname_transcript_path
        null_in_transcript_path)
next
  case False
  with assms(5) have free: "''.'' \<in> dirs fs" "files fs ''./transcriptions'' = None"
    "mkdir_error env ''./transcriptions'' = None" by simp_all
  have d: "dirname ''./transcriptions'' = ''.''" by (simp add: dirname_def)
  from False free d
  have m: "mkdir env fs ''./transcriptions'' =
      Inr (fs\<lparr>dirs := insert ''./transcriptions'' (dirs fs)\<rparr>)"
    by (simp add: mkdir_def)
  from False m assms(1,2,3,4,6,7,8) show ?thesis
    by (simp add: transcript_def isdir_def write_text_def dirname_transcript_path
        null_in_transcript_path transcript_path_not_dir_name)
qed

theorem transcript_writes_one_file_witness:
  "fetch (stub_env utf8_encode) ''abc'' [''en''] = Inr [[233], [111, 107]] \<and>
   default_encode (stub_env utf8_encode) (join_space [[233], [111, 107]]) =
     Inr [195, 169, 32, 111, 107] \<and>
   CHR ''/'' \<notin> set ''abc'' \<and> CHR 0x00 \<notin> set ''abc'' \<and> ''.'' \<in> dirs stub_fs \<and>
   files stub_fs ''./transcriptions'' = None \<and>
   mkdir_error (stub_env utf8_encode) ''./transcriptions'' = None \<and>
   transcript_path ''abc'' \<notin> dirs stub_fs \<and>
   open_error (stub_env utf8_encode) (transcript_path ''abc'') = None \<and>
   write_error (stub_env utf8_encode) (transcript_path ''abc'') [195, 169, 32, 111, 107] = None \<and>
   transcript (stub_env utf8_encode) stub_fs ''abc'' [''en''] =
     (Inr (), stub_fs\<lparr>dirs := insert ''./transcriptions'' (dirs stub_fs),
        files := (files stub_fs)(''./transcriptions/abc.txt'' \<mapsto> [195, 169, 32, 111, 107])\<rparr>)"
proof -
  have f: "fetch (stub_env utf8_encode) ''abc'' [''en''] = Inr [[233], [111, 107]]"
    by (simp add: stub_env_def)
  have e: "default_encode (stub_env utf8_encode) (join_space [[233], [111, 107]]) =
     Inr [195, 169, 32, 111, 107]"
    by (simp add: stub_env_def utf8_encode_def utf8_char_def)
  have p: "transcript_path ''abc'' = ''./transcriptions/abc.txt''"
    by (simp add: transcript_path_def)
  have o: "open_error (stub_env utf8_encode) (transcript_path ''abc'') = None"
    by (simp add: stub_env_def transcript_path_def dirname_def)
  have h: "mkdir_error (stub_env utf8_encode) ''./transcriptions'' = None"
    "write_error (stub_env utf8_encode) (transcript_path ''abc'') [195, 169, 32, 111, 107] = None"
    by (simp_all add: stub_env_def)
  from transcript_writes_one_file[OF f e, of stub_fs] f e p o h show ?thesis
    by (simp add: stub_fs_def)
qed

text \<open>
  The claim as stated fails: when the fetch raises (here: no transcript in the languages
  asked for) no file is written, and under a Latin-1 locale the bytes written are not the
  UTF-8 encoding of the caption.
\<close>

theorem transcript_counterexample:
  "transcript (stub_env utf8_encode) stub_fs ''abc'' [] =
     (Inl (LibraryError ''NoTranscriptFound''), stub_fs) \<and>
   files stub_fs (transcript_path ''abc'') = None \<and>
   files (snd (transcript (stub_env latin1_encode) stub_fs ''abc'' [''en'']))
       (transcript_path ''abc'') = Some [233, 32, 111, 107] \<and>
   utf8_encode (join_space [[233], [111, 107]]) = Inr [195, 169, 32, 111, 107]"
  by (simp add: transcript_def stub_env_def stub_fs_def isdir_def mkdir_def write_text_def
      dirname_def transcript_path_def latin1_encode_def utf8_encode_def utf8_char_def)

text \<open>
  A name the operating system refuses: with an id of 300 letters the file does not open,
  and the helper raises after it has made the directory.
\<close>

lemma transcript_name_too_long:
  "transcript (stub_env utf8_encode) stub_fs (replicate 300 CHR ''a'') [''en''] =
     (Inl (OSError ''File name too long''),
      stub_fs\<lparr>dirs := insert ''./transcriptions'' (dirs stub_fs)\<rparr>)"
proof -
  let ?env = "stub_env utf8_encode"
  let ?p = "transcript_path (replicate 300 CHR ''a'')"
  have n: "CHR ''/'' \<notin> set (replicate 300 CHR ''a'')" "CHR 0x00 \<notin> set (replicate 300 CHR ''a'')"
    by auto
  have d: "dirname ?p = ''./transcriptions''" by (rule dirname_transcript_path[OF n(1)])
  have l: "length ?p = 321" by (simp add: transcript_path_def)
  have o: "open_error ?env ?p = Some (OSError ''File name too long'')"
    by (simp add: stub_env_def d l)
  have z: "CHR 0x00 \<notin> set ?p" using n(2) by (simp add: null_in_transcript_path)
  have f: "fetch ?env (replicate 300 CHR ''a'') [''en''] = Inr [[233], [111, 107]]"
    and m: "mkdir_error ?env ''./transcriptions'' = None"
    by (simp_all add: stub_env_def)
  have "dirname ''./transcriptions'' = ''.''" by (simp add: dirname_def)
  then show ?thesis using d o z f m
    by (simp add: transcript_def stub_fs_def isdir_def mkdir_def write_text_def
        transcript_path_not_dir_name transcript_path_not_dot)
qed

text \<open>
  Claim C10. \<^verbatim>\<open>get_video_details\<close> validates nothing: for every \<^verbatim>\<open>video_id\<close>, the empty
  string too, it sends its one request, so that an empty id comes back as what the remote
  service answers, the not-found record or the API error record; \<^verbatim>\<open>get_channel_info\<close> with
  an empty id sends nothing.
\<close>

theorem video_details_always_sends_request:
  "snd (get_video_details lib tr log video_id) =
     log @ [VideosList ''snippet,contentDetails,statistics'' video_id] \<and>
   (not_found (tr log (video_request video_id)) \<longrightarrow>
      fst (get_video_details lib tr log video_id) = Inr [(''error'', JStr ''Video not found'')]) \<and>
   (structured_error lib (tr log (video_request video_id)) \<longrightarrow>
      (\<exists>m. fst (get_video_details lib tr log video_id) =
         Inr [(''error'', JStr (''API Error: '' @ m))])) \<and>
   snd (get_channel_info lib tr log (Some []) None) = log"
proof (intro conjI impI)
  show "snd (get_video_details lib tr log video_id) =
     log @ [VideosList ''snippet,contentDetails,statistics'' video_id]"
    by (simp add: get_video_details_eq video_request_def channels_part_def)
next
  assume "not_found (tr log (video_request video_id))"
  then show "fst (get_video_details lib tr log video_id) = Inr [(''error'', JStr ''Video not found'')]"
    by (simp add: get_video_details_eq video_of_response_not_found)
next
  assume "structured_error lib (tr log (video_request video_id))"
  then obtain c where r: "tr log (video_request video_id) = Inl (HttpError c)"
    and sb: "structured_body lib c"
    by (auto simp: structured_error_def split: sum.splits exn.splits)
  from api_error_structured[OF sb] r
  show "\<exists>m. fst (get_video_details lib tr log video_id) =
         Inr [(''error'', JStr (''API Error: '' @ m))]"
    by (simp add: get_video_details_eq video_of_response_Inl)
next
  show "snd (get_channel_info lib tr log (Some []) None) = log"
    by (simp add: get_channel_info_def)
qed

theorem video_details_always_sends_request_witness:
  "snd (get_video_details stub_lib (stub_provider uploads3) [] []) =
     [VideosList ''snippet,contentDetails,statistics'' []] \<and>
   not_found (stub_provider uploads3 [] (video_request [])) \<and>
   fst (get_video_details stub_lib (stub_provider uploads3) [] []) =
     Inr [(''error'', JStr ''Video not found'')] \<and>
   structured_error stub_lib
     (failing_after 0 (HttpError error_body) (stub_provider uploads3) [] (video_request [])) \<and>
   fst (get_video_details stub_lib (failing_after 0 (HttpError error_body) (stub_provider uploads3))
          [] []) = Inr [(''error'', JStr ''API Error: quotaExceeded'')] \<and>
   snd (get_channel_info stub_lib (stub_provider uploads3) [] (Some []) None) = []"
  using video_details_always_sends_request[of stub_lib "stub_provider uploads3" "[]" "[]"]
    video_details_always_sends_request[of stub_lib
      "failing_after 0 (HttpError error_body) (stub_provider uploads3)" "[]" "[]"]
  by (simp add: get_video_details_def execute_def video_request_def failing_after_def
      stub_lib_def error_body_def structured_error_def structured_body_def subscr2_def bindE_def
      video_of_response_def api_error_def format_value_def not_found_def)

end
